theory Spec2Isabelle
  imports Main "HOL-Library.AList"
begin

section \<open>The REST control plane of the job scheduler (api/api.go)\<close>

text \<open>
  The handlers of \<^verbatim>\<open>api/api.go\<close> are embedded as functions from a request and the
  state of the world to the response written and the new state. The registry
  (\<^verbatim>\<open>job.JobCache\<close>), the methods of \<^verbatim>\<open>job.Job\<close>, the JSON codecs and the outbound
  HTTP client are not part of \<^verbatim>\<open>api.go\<close>: they are the fields of an environment
  record that every handler takes as its first argument, so that every theorem holds
  for every registry and every remote peer.
\<close>

subsection \<open>Data\<close>

text \<open>A Go \<^verbatim>\<open>error\<close> value is represented by its message.\<close>

type_synonym err = string

text \<open>
  \<^verbatim>\<open>time.Time\<close> and \<^verbatim>\<open>time.Duration\<close> are counts of nanoseconds. \<^verbatim>\<open>Time.Sub\<close>
  saturates at the bounds of the 64-bit duration.
\<close>

type_synonym Time = int
type_synonym Duration = int

definition Sub :: "Time \<Rightarrow> Time \<Rightarrow> Duration" where
  "Sub t u = max (- (2 ^ 63)) (min (2 ^ 63 - 1) (t - u))"

text \<open>
  \<^verbatim>\<open>http.Header\<close>: canonical header name to the list of its values. The
  canonical form of a name (\<^verbatim>\<open>textproto.CanonicalMIMEHeaderKey\<close>) is a parameter.
\<close>

type_synonym Header = "(string \<times> string list) list"

definition Header_Get :: "(string \<Rightarrow> string) \<Rightarrow> Header \<Rightarrow> string \<Rightarrow> string" where
  "Header_Get canon h k =
     (case map_of h (canon k) of
        None \<Rightarrow> ''''
      | Some [] \<Rightarrow> ''''
      | Some (v # _) \<Rightarrow> v)"

definition Header_Set :: "(string \<Rightarrow> string) \<Rightarrow> Header \<Rightarrow> string \<Rightarrow> string \<Rightarrow> Header" where
  "Header_Set canon h k v = AList.update (canon k) [v] h"

text \<open>
  Modelled from the spec: the declarations of \<^verbatim>\<open>job.Job\<close>, \<^verbatim>\<open>job.RemoteProperties\<close>,
  \<^verbatim>\<open>job.JobStat\<close>, \<^verbatim>\<open>job.JobStatus\<close> and \<^verbatim>\<open>job.KalaStats\<close> are in package
  \<^verbatim>\<open>job\<close>; the records below carry the fields of the spec's data model, under the
  names \<^verbatim>\<open>api.go\<close> and the tests use where they name one.
\<close>

datatype jobType = LocalJob | RemoteJob

datatype JobStatus = Running | Success | Failed

record RemoteProperties =
  Url :: string
  Method :: string
  Body :: string
  Headers :: Header
  Timeout :: int
  ExpectedResponseCodes :: "int list"

record Job =
  Name :: string
  Id :: string
  Owner :: string
  JobType :: jobType
  Disabled :: bool
  Schedule :: string
  Retries :: nat
  Epsilon :: string
  ParentJobs :: "string list"
  DependentJobs :: "string list"
  Command :: string
  RemoteProperties :: RemoteProperties
  NextRunAt :: Time
  TimerArmed :: bool

record JobStat =
  StatId :: string
  JobId :: string
  RanAt :: Time
  NumberOfRetries :: nat
  Status :: JobStatus
  ExecutionDuration :: Duration
  Output :: string

record KalaStats =
  Jobs :: nat
  ActiveJobs :: nat
  DisabledJobs :: nat
  SuccessCount :: nat
  ErrorCount :: nat

text \<open>
  The inbound request: method, the router's path variables, the body stream (its
  bytes, and the error that ends it when it does not end in EOF), the headers and the
  access token the authentication middleware may have put in the context.
\<close>

record Request =
  r_Method :: string
  r_Vars :: "(string \<times> string) list"
  r_Body :: string
  r_BodyErr :: "err option"
  r_Header :: Header
  r_AccessToken :: "string option"

text \<open>The outbound request of the validation call, and its response.\<close>

record http_request =
  req_method :: string
  req_url :: string
  req_body :: string
  req_header :: Header

record http_response =
  res_StatusCode :: nat
  res_Status :: string
  res_Body :: string

text \<open>
  What a handler leaves in the \<^verbatim>\<open>http.ResponseWriter\<close>: the status code, the
  \<^verbatim>\<open>Content-Type\<close> header and the body. The JSON encoding of a body is kept as the
  value encoded.
\<close>

datatype payload =
    Empty
  | apiError err
  | AddJobResponse string
  | JobResponse Job
  | ListJobsResponse "(string \<times> Job) list"
  | ListJobStatsResponse "JobStat list"
  | JobRunResponse "JobStat option"
  | KalaStatsResponse KalaStats
  | Raw string

record Response =
  code :: nat
  content_type :: "string option"
  body :: payload

text \<open>
  A handler either returns, with what it wrote, or panics (a nil pointer dereference);
  the recovery middleware that \<^verbatim>\<open>MakeServer\<close> installs is outside the handlers.
\<close>

datatype outcome = Wrote Response | Panicked

text \<open>
  Every call that leaves \<^verbatim>\<open>api.go\<close> for the registry, a job or the network is
  recorded, in order, in the state.
\<close>

datatype call =
    Call_Get string
  | Call_GetAll
  | Call_Set Job
  | Call_GetRun string
  | Call_GetAllRuns string
  | Call_UpdateRun JobStat
  | Call_Init Job
  | Call_Delete Job
  | Call_DeleteAll
  | Call_Disable Job
  | Call_Enable Job
  | Call_StopTimer Job
  | Call_Run Job
  | Call_Now "Job option"
  | Call_NewKalaStats
  | Call_Do http_request

record 'c world =
  cache :: 'c
  calls :: "call list"

subsection \<open>The environment: package job, encoding/json, net/http, viper\<close>

record 'c env =
  json_Unmarshal_Job :: "string \<Rightarrow> err + Job"
  json_Unmarshal_JobStatus :: "string \<Rightarrow> err + JobStatus"
  json_Decode_bool :: "string \<Rightarrow> err + bool"
  fmt_Job :: "Job \<Rightarrow> string"
  CanonicalMIMEHeaderKey :: "string \<Rightarrow> string"
  url_Parse :: "string \<Rightarrow> err option"
  client_Do :: "http_request \<Rightarrow> Duration option \<Rightarrow> err + http_response"
  remote_headers :: "string list"
  cache_Get :: "'c \<Rightarrow> string \<Rightarrow> Job option \<times> err option"
  cache_GetAll :: "'c \<Rightarrow> (string \<times> Job) list"
  cache_Set :: "'c \<Rightarrow> Job \<Rightarrow> err option \<times> 'c"
  cache_GetRun :: "'c \<Rightarrow> string \<Rightarrow> JobStat option \<times> err option"
  cache_GetAllRuns :: "'c \<Rightarrow> string \<Rightarrow> JobStat list \<times> err option"
  cache_UpdateRun :: "'c \<Rightarrow> JobStat \<Rightarrow> err option \<times> 'c"
  job_Init :: "Job \<Rightarrow> 'c \<Rightarrow> err option \<times> Job \<times> 'c"
  job_Delete :: "Job \<Rightarrow> 'c \<Rightarrow> err option \<times> 'c"
  job_DeleteAll :: "'c \<Rightarrow> err option \<times> 'c"
  job_Disable :: "Job \<Rightarrow> 'c \<Rightarrow> err option \<times> 'c"
  job_Enable :: "Job \<Rightarrow> 'c \<Rightarrow> err option \<times> 'c"
  job_StopTimer :: "Job \<Rightarrow> 'c \<Rightarrow> 'c"
  job_Run :: "Job \<Rightarrow> 'c \<Rightarrow> 'c"
  job_Now :: "Job \<Rightarrow> 'c \<Rightarrow> Time"
  job_ResponseTimeout :: "Job \<Rightarrow> Duration"
  job_TryTemplatize :: "Job \<Rightarrow> string \<Rightarrow> err + string"
  job_SetHeaders :: "Job \<Rightarrow> Header \<Rightarrow> string \<Rightarrow> Header"
  job_NewKalaStats :: "'c \<Rightarrow> KalaStats"

definition logged :: "call \<Rightarrow> 'c world \<Rightarrow> 'c world" where
  "logged c w = w\<lparr>calls := calls w @ [c]\<rparr>"

definition Get :: "'c env \<Rightarrow> string \<Rightarrow> 'c world \<Rightarrow> (Job option \<times> err option) \<times> 'c world" where
  "Get E i w = (cache_Get E (cache w) i, logged (Call_Get i) w)"

definition GetAll :: "'c env \<Rightarrow> 'c world \<Rightarrow> (string \<times> Job) list \<times> 'c world" where
  "GetAll E w = (cache_GetAll E (cache w), logged Call_GetAll w)"

definition Set_job :: "'c env \<Rightarrow> Job \<Rightarrow> 'c world \<Rightarrow> err option \<times> 'c world" where
  "Set_job E j w =
     (case cache_Set E (cache w) j of
        (e, c') \<Rightarrow> (e, logged (Call_Set j) (w\<lparr>cache := c'\<rparr>)))"

definition GetRun :: "'c env \<Rightarrow> string \<Rightarrow> 'c world \<Rightarrow> (JobStat option \<times> err option) \<times> 'c world" where
  "GetRun E i w = (cache_GetRun E (cache w) i, logged (Call_GetRun i) w)"

definition GetAllRuns :: "'c env \<Rightarrow> string \<Rightarrow> 'c world \<Rightarrow> (JobStat list \<times> err option) \<times> 'c world" where
  "GetAllRuns E i w = (cache_GetAllRuns E (cache w) i, logged (Call_GetAllRuns i) w)"

definition UpdateRun :: "'c env \<Rightarrow> JobStat \<Rightarrow> 'c world \<Rightarrow> err option \<times> 'c world" where
  "UpdateRun E s w =
     (case cache_UpdateRun E (cache w) s of
        (e, c') \<Rightarrow> (e, logged (Call_UpdateRun s) (w\<lparr>cache := c'\<rparr>)))"

definition Init :: "'c env \<Rightarrow> Job \<Rightarrow> 'c world \<Rightarrow> err option \<times> Job \<times> 'c world" where
  "Init E j w =
     (case job_Init E j (cache w) of
        (e, j', c') \<Rightarrow> (e, j', logged (Call_Init j) (w\<lparr>cache := c'\<rparr>)))"

definition Delete :: "'c env \<Rightarrow> Job \<Rightarrow> 'c world \<Rightarrow> err option \<times> 'c world" where
  "Delete E j w =
     (case job_Delete E j (cache w) of
        (e, c') \<Rightarrow> (e, logged (Call_Delete j) (w\<lparr>cache := c'\<rparr>)))"

definition DeleteAll :: "'c env \<Rightarrow> 'c world \<Rightarrow> err option \<times> 'c world" where
  "DeleteAll E w =
     (case job_DeleteAll E (cache w) of
        (e, c') \<Rightarrow> (e, logged Call_DeleteAll (w\<lparr>cache := c'\<rparr>)))"

definition Disable :: "'c env \<Rightarrow> Job \<Rightarrow> 'c world \<Rightarrow> err option \<times> 'c world" where
  "Disable E j w =
     (case job_Disable E j (cache w) of
        (e, c') \<Rightarrow> (e, logged (Call_Disable j) (w\<lparr>cache := c'\<rparr>)))"

definition Enable :: "'c env \<Rightarrow> Job \<Rightarrow> 'c world \<Rightarrow> err option \<times> 'c world" where
  "Enable E j w =
     (case job_Enable E j (cache w) of
        (e, c') \<Rightarrow> (e, logged (Call_Enable j) (w\<lparr>cache := c'\<rparr>)))"

definition StopTimer :: "'c env \<Rightarrow> Job \<Rightarrow> 'c world \<Rightarrow> 'c world" where
  "StopTimer E j w = logged (Call_StopTimer j) (w\<lparr>cache := job_StopTimer E j (cache w)\<rparr>)"

definition Run :: "'c env \<Rightarrow> Job \<Rightarrow> 'c world \<Rightarrow> 'c world" where
  "Run E j w = logged (Call_Run j) (w\<lparr>cache := job_Run E j (cache w)\<rparr>)"

definition NewKalaStats :: "'c env \<Rightarrow> 'c world \<Rightarrow> KalaStats \<times> 'c world" where
  "NewKalaStats E w = (job_NewKalaStats E (cache w), logged Call_NewKalaStats w)"

text \<open>
  \<^verbatim>\<open>j.Now()\<close> reads the clock held by its receiver: on a nil \<^verbatim>\<open>*Job\<close> the read is a
  nil pointer dereference.
\<close>

definition Now :: "'c env \<Rightarrow> Job option \<Rightarrow> 'c world \<Rightarrow> Time option \<times> 'c world" where
  "Now E j w =
     (case j of
        None \<Rightarrow> (None, logged (Call_Now None) w)
      | Some jb \<Rightarrow> (Some (job_Now E jb (cache w)), logged (Call_Now (Some jb)) w))"

definition Do :: "'c env \<Rightarrow> http_request \<Rightarrow> Duration option \<Rightarrow> 'c world \<Rightarrow> (err + http_response) \<times> 'c world" where
  "Do E req deadline w = (client_Do E req deadline, logged (Call_Do req) w)"

text \<open>
  \<^verbatim>\<open>http.NewRequest\<close>: fails when the URL does not parse, and otherwise builds the
  request with no header set.
\<close>

definition NewRequest :: "'c env \<Rightarrow> string \<Rightarrow> string \<Rightarrow> string \<Rightarrow> err + http_request" where
  "NewRequest E m u b =
     (case url_Parse E u of
        Some e \<Rightarrow> Inl e
      | None \<Rightarrow> Inr \<lparr>req_method = m, req_url = u, req_body = b, req_header = []\<rparr>)"

subsection \<open>Reading the request\<close>

definition Vars :: "Request \<Rightarrow> string \<Rightarrow> string" where
  "Vars r k = (case map_of (r_Vars r) k of None \<Rightarrow> '''' | Some v \<Rightarrow> v)"

text \<open>\<^verbatim>\<open>ioutil.ReadAll(r.Body)\<close>: all the bytes, or the error that ends the stream.\<close>

definition ReadAll :: "Request \<Rightarrow> err + string" where
  "ReadAll r = (case r_BodyErr r of Some e \<Rightarrow> Inl e | None \<Rightarrow> Inr (r_Body r))"

text \<open>
  \<^verbatim>\<open>ioutil.ReadAll(io.LimitReader(r.Body, n))\<close>: once \<open>n\<close> bytes are read the limited
  reader reports EOF and the stream is not read further.
\<close>

definition ReadAll_LimitReader :: "Request \<Rightarrow> nat \<Rightarrow> err + string" where
  "ReadAll_LimitReader r n =
     (if n \<le> length (r_Body r) then Inr (take n (r_Body r)) else ReadAll r)"

definition body_limit :: nat where
  "body_limit = 1048576"

definition unmarshalNewJob :: "'c env \<Rightarrow> Request \<Rightarrow> err + Job" where
  "unmarshalNewJob E r =
     (case ReadAll_LimitReader r body_limit of
        Inl e \<Rightarrow> Inl e
      | Inr b \<Rightarrow> json_Unmarshal_Job E b)"

definition unmarshalJobStatus :: "'c env \<Rightarrow> Request \<Rightarrow> err + JobStatus" where
  "unmarshalJobStatus E r =
     (case ReadAll_LimitReader r body_limit of
        Inl e \<Rightarrow> Inl e
      | Inr b \<Rightarrow> json_Unmarshal_JobStatus E b)"

subsection \<open>Writing the response\<close>

definition jsonContentType :: string where
  "jsonContentType = ''application/json;charset=UTF-8''"

text \<open>\<^verbatim>\<open>w.WriteHeader(status)\<close> and nothing else.\<close>

definition WriteHeader :: "nat \<Rightarrow> Response" where
  "WriteHeader status = \<lparr>code = status, content_type = None, body = Empty\<rparr>"

text \<open>A handler that returns without writing: net/http answers 200 with no body.\<close>

definition unwritten :: Response where
  "unwritten = \<lparr>code = 200, content_type = None, body = Empty\<rparr>"

text \<open>
  \<^verbatim>\<open>errorEncodeJSON\<close>: the message as a JSON object, sent by \<^verbatim>\<open>http.Error\<close>, which
  replaces the content type that was just set.
\<close>

definition errorEncodeJSON :: "err \<Rightarrow> nat \<Rightarrow> Response" where
  "errorEncodeJSON errToEncode status =
     \<lparr>code = status, content_type = Some ''text/plain; charset=utf-8'',
      body = apiError errToEncode\<rparr>"

definition encodeJSON :: "nat \<Rightarrow> payload \<Rightarrow> Response" where
  "encodeJSON status p = \<lparr>code = status, content_type = Some jsonContentType, body = p\<rparr>"

definition handleGetJob :: "Job \<Rightarrow> Response" where
  "handleGetJob j = encodeJSON 200 (JobResponse j)"

subsection \<open>The handlers\<close>

text \<open>\<^verbatim>\<open>HandleKalaStatsRequest\<close>, GET stats/.\<close>

definition HandleKalaStatsRequest :: "'c env \<Rightarrow> Request \<Rightarrow> 'c world \<Rightarrow> outcome \<times> 'c world" where
  "HandleKalaStatsRequest E r w =
     (case NewKalaStats E w of
        (stats, w1) \<Rightarrow> (Wrote (encodeJSON 200 (KalaStatsResponse stats)), w1))"

text \<open>\<^verbatim>\<open>HandleListJobsRequest\<close>, GET job/.\<close>

definition HandleListJobsRequest :: "'c env \<Rightarrow> Request \<Rightarrow> 'c world \<Rightarrow> outcome \<times> 'c world" where
  "HandleListJobsRequest E r w =
     (case GetAll E w of
        (allJobs, w1) \<Rightarrow> (Wrote (encodeJSON 200 (ListJobsResponse allJobs)), w1))"

text \<open>\<^verbatim>\<open>strings.HasSuffix\<close>.\<close>

definition HasSuffix :: "string \<Rightarrow> string \<Rightarrow> bool" where
  "HasSuffix s suf =
     (length suf \<le> length s \<and> drop (length s - length suf) s = suf)"

text \<open>
  The loop of \<^verbatim>\<open>validateJob\<close> over the configured \<^verbatim>\<open>remote.headers\<close>: a header of
  the inbound request is copied into the outbound one when its value is not empty.
\<close>

fun forward_headers :: "'c env \<Rightarrow> string list \<Rightarrow> Request \<Rightarrow> http_request \<Rightarrow> http_request" where
  "forward_headers E [] r req = req"
| "forward_headers E (header # headers) r req =
     (let v = Header_Get (CanonicalMIMEHeaderKey E) (r_Header r) header
      in forward_headers E headers r
           (if v \<noteq> ''''
            then req\<lparr>req_header := Header_Set (CanonicalMIMEHeaderKey E) (req_header req) header v\<rparr>
            else req))"

definition validate_url :: "string \<Rightarrow> string" where
  "validate_url url = (if HasSuffix url ''/'' then url @ ''validate'' else url @ ''/validate'')"

text \<open>
  \<^verbatim>\<open>validateJob\<close>: the pair \<^verbatim>\<open>(bool, error)\<close> it returns is \<^verbatim>\<open>(false, err)\<close> or
  \<^verbatim>\<open>(result, nil)\<close>, a sum here. The context of the call carries a deadline when the
  job's response timeout is positive. \<^verbatim>\<open>j.SetHeaders(req, token)\<close> sets the default or
  the job's own headers of the request, and nothing else of it.
\<close>

definition validateJob :: "'c env \<Rightarrow> Request \<Rightarrow> Job \<Rightarrow> 'c world \<Rightarrow> (err + bool) \<times> 'c world" where
  "validateJob E r j w =
     (let token = (case r_AccessToken r of None \<Rightarrow> '''' | Some t \<Rightarrow> t);
          timeout = job_ResponseTimeout E j;
          deadline = (if timeout > 0 then Some timeout else None)
      in case job_TryTemplatize E j (Url (RemoteProperties j)) of
           Inl e \<Rightarrow> (Inl e, w)
         | Inr url \<Rightarrow>
             (case job_TryTemplatize E j (Body (RemoteProperties j)) of
                Inl e \<Rightarrow> (Inl e, w)
              | Inr b \<Rightarrow>
                  (case NewRequest E ''POST'' (validate_url url) b of
                     Inl e \<Rightarrow> (Inl e, w)
                   | Inr req0 \<Rightarrow>
                       (let req = forward_headers E (remote_headers E) r
                                    (req0\<lparr>req_header := job_SetHeaders E j (req_header req0) token\<rparr>)
                        in case Do E req deadline w of
                             (Inl e, w1) \<Rightarrow> (Inl e, w1)
                           | (Inr res, w1) \<Rightarrow>
                               (if res_StatusCode res = 200
                                then (case json_Decode_bool E (res_Body res) of
                                        Inl e \<Rightarrow> (Inl e, w1)
                                      | Inr result \<Rightarrow> (Inr result, w1))
                                else (Inl (res_Status res), w1))))))"

text \<open>\<^verbatim>\<open>HandleAddJob\<close>, POST job/.\<close>

definition HandleAddJob :: "'c env \<Rightarrow> string \<Rightarrow> bool \<Rightarrow> Request \<Rightarrow> 'c world \<Rightarrow> outcome \<times> 'c world" where
  "HandleAddJob E defaultOwner disableLocalJobs r w =
     (case unmarshalNewJob E r of
        Inl e \<Rightarrow> (Wrote (errorEncodeJSON e 400), w)
      | Inr parsed \<Rightarrow>
          (if disableLocalJobs \<and> JobType parsed = LocalJob
           then (Wrote (errorEncodeJSON ''local jobs are disabled'' 403), w)
           else
             (let newJob = (if defaultOwner \<noteq> '''' \<and> Owner parsed = ''''
                            then parsed\<lparr>Owner := defaultOwner\<rparr> else parsed);
                  (refused, w1) =
                    (if JobType newJob = RemoteJob
                     then (case validateJob E r newJob w of
                             (Inl e, w') \<Rightarrow> (True, w')
                           | (Inr isValid, w') \<Rightarrow> (\<not> isValid, w'))
                     else (False, w))
              in if refused then (Wrote (WriteHeader 403), w1)
                 else
                   (case Init E newJob w1 of
                      (Some e, newJob', w2) \<Rightarrow>
                        (Wrote (errorEncodeJSON
                           (''Error occurred when initializing the job: '' @ fmt_Job E newJob') 400), w2)
                    | (None, newJob', w2) \<Rightarrow>
                        (Wrote (encodeJSON 201 (AddJobResponse (Id newJob'))), w2)))))"

text \<open>\<^verbatim>\<open>HandleJobRequest\<close>, DELETE, GET and PUT job/{id}/.\<close>

definition HandleJobRequest :: "'c env \<Rightarrow> bool \<Rightarrow> Request \<Rightarrow> 'c world \<Rightarrow> outcome \<times> 'c world" where
  "HandleJobRequest E disableLocalJobs r w =
     (case Get E (Vars r ''id'') w of
        ((_, Some e), w1) \<Rightarrow> (Wrote (WriteHeader 404), w1)
      | ((None, None), w1) \<Rightarrow> (Wrote (WriteHeader 404), w1)
      | ((Some j, None), w1) \<Rightarrow>
          (if r_Method r = ''DELETE'' then
             (case Delete E j w1 of
                (Some e, w2) \<Rightarrow> (Wrote (errorEncodeJSON e 500), w2)
              | (None, w2) \<Rightarrow> (Wrote (WriteHeader 204), w2))
           else if r_Method r = ''GET'' then (Wrote (handleGetJob j), w1)
           else if r_Method r = ''PUT'' then
             (case unmarshalNewJob E r of
                Inl e \<Rightarrow> (Wrote (errorEncodeJSON e 400), w1)
              | Inr updatedJob \<Rightarrow>
                  (if disableLocalJobs \<and> JobType updatedJob = LocalJob
                   then (Wrote (errorEncodeJSON ''local jobs are disabled'' 403), w1)
                   else
                     (case Init E (updatedJob\<lparr>Id := Id j\<rparr>) w1 of
                        (Some e, updatedJob', w2) \<Rightarrow>
                          (Wrote (errorEncodeJSON
                             (''Error occurred when initializing the job: '' @ fmt_Job E updatedJob') 400), w2)
                      | (None, updatedJob', w2) \<Rightarrow> (Wrote (handleGetJob updatedJob'), w2))))
           else (Wrote unwritten, w1)))"

text \<open>
  \<^verbatim>\<open>HandleJobParamsRequest\<close>, GET and PUT job/{id}/params/. The job is held by value:
  the assignment to its body reaches the registry with \<^verbatim>\<open>Set\<close>.
\<close>

definition HandleJobParamsRequest :: "'c env \<Rightarrow> Request \<Rightarrow> 'c world \<Rightarrow> outcome \<times> 'c world" where
  "HandleJobParamsRequest E r w =
     (case Get E (Vars r ''id'') w of
        ((_, Some e), w1) \<Rightarrow> (Wrote (WriteHeader 404), w1)
      | ((None, None), w1) \<Rightarrow> (Wrote (WriteHeader 404), w1)
      | ((Some j, None), w1) \<Rightarrow>
          (if JobType j \<noteq> RemoteJob
           then (Wrote (errorEncodeJSON ''Job is not a remote job'' 403), w1)
           else if r_Method r = ''GET'' then
             (Wrote (encodeJSON 200 (Raw (Body (RemoteProperties j)))), w1)
           else if r_Method r = ''PUT'' then
             (case ReadAll r of
                Inl e \<Rightarrow> (Wrote (WriteHeader 400), w1)
              | Inr bodyBytes \<Rightarrow>
                  (case Set_job E (j\<lparr>RemoteProperties := (RemoteProperties j)\<lparr>Body := bodyBytes\<rparr>\<rparr>) w1 of
                     (Some e, w2) \<Rightarrow> (Wrote (WriteHeader 500), w2)
                   | (None, w2) \<Rightarrow> (Wrote (WriteHeader 204), w2)))
           else (Wrote unwritten, w1)))"

text \<open>\<^verbatim>\<open>HandleDeleteAllJobs\<close>, DELETE job/all/.\<close>

definition HandleDeleteAllJobs :: "'c env \<Rightarrow> bool \<Rightarrow> Request \<Rightarrow> 'c world \<Rightarrow> outcome \<times> 'c world" where
  "HandleDeleteAllJobs E disableDeleteAll r w =
     (if disableDeleteAll then (Wrote (WriteHeader 403), w)
      else
        (case DeleteAll E w of
           (Some e, w1) \<Rightarrow> (Wrote (errorEncodeJSON e 500), w1)
         | (None, w1) \<Rightarrow> (Wrote (WriteHeader 204), w1)))"

text \<open>\<^verbatim>\<open>HandleStartJobRequest\<close>, POST job/start/{id}/.\<close>

definition HandleStartJobRequest :: "'c env \<Rightarrow> Request \<Rightarrow> 'c world \<Rightarrow> outcome \<times> 'c world" where
  "HandleStartJobRequest E r w =
     (case Get E (Vars r ''id'') w of
        ((_, Some e), w1) \<Rightarrow> (Wrote (WriteHeader 404), w1)
      | ((None, None), w1) \<Rightarrow> (Wrote (WriteHeader 404), w1)
      | ((Some j, None), w1) \<Rightarrow> (Wrote (WriteHeader 204), Run E j (StopTimer E j w1)))"

text \<open>\<^verbatim>\<open>HandleDisableJobRequest\<close>, POST job/disable/{id}/.\<close>

definition HandleDisableJobRequest :: "'c env \<Rightarrow> Request \<Rightarrow> 'c world \<Rightarrow> outcome \<times> 'c world" where
  "HandleDisableJobRequest E r w =
     (case Get E (Vars r ''id'') w of
        ((_, Some e), w1) \<Rightarrow> (Wrote (WriteHeader 404), w1)
      | ((None, None), w1) \<Rightarrow> (Wrote (WriteHeader 404), w1)
      | ((Some j, None), w1) \<Rightarrow>
          (case Disable E j w1 of
             (Some e, w2) \<Rightarrow> (Wrote (errorEncodeJSON e 500), w2)
           | (None, w2) \<Rightarrow> (Wrote (WriteHeader 204), w2)))"

text \<open>\<^verbatim>\<open>HandleEnableJobRequest\<close>, POST job/enable/{id}/.\<close>

definition HandleEnableJobRequest :: "'c env \<Rightarrow> Request \<Rightarrow> 'c world \<Rightarrow> outcome \<times> 'c world" where
  "HandleEnableJobRequest E r w =
     (case Get E (Vars r ''id'') w of
        ((_, Some e), w1) \<Rightarrow> (Wrote (WriteHeader 404), w1)
      | ((None, None), w1) \<Rightarrow> (Wrote (WriteHeader 404), w1)
      | ((Some j, None), w1) \<Rightarrow>
          (case Enable E j w1 of
             (Some e, w2) \<Rightarrow> (Wrote (errorEncodeJSON e 500), w2)
           | (None, w2) \<Rightarrow> (Wrote (WriteHeader 204), w2)))"

text \<open>
  \<^verbatim>\<open>HandleListJobRunsRequest\<close>, GET job/{id}/executions/. Only the error of
  \<^verbatim>\<open>cache.Get\<close> is looked at; the job it returns is dropped.
\<close>

definition HandleListJobRunsRequest :: "'c env \<Rightarrow> Request \<Rightarrow> 'c world \<Rightarrow> outcome \<times> 'c world" where
  "HandleListJobRunsRequest E r w =
     (case Get E (Vars r ''id'') w of
        ((_, Some e), w1) \<Rightarrow> (Wrote (WriteHeader 404), w1)
      | ((_, None), w1) \<Rightarrow>
          (case GetAllRuns E (Vars r ''id'') w1 of
             ((_, Some e), w2) \<Rightarrow> (Wrote (WriteHeader 404), w2)
           | ((allJobs, None), w2) \<Rightarrow>
               (Wrote (encodeJSON 200 (ListJobStatsResponse allJobs)), w2)))"

text \<open>
  \<^verbatim>\<open>HandleJobRunRequest\<close>, GET and PUT job/{job_id}/executions/{id}/. On PUT the
  error of \<^verbatim>\<open>cache.Get(run.JobId)\<close> is logged and the handler goes on with the job
  pointer it got, nil or not. The run is held by value: the two assignments to it
  reach the registry with \<^verbatim>\<open>UpdateRun\<close>.
\<close>

definition HandleJobRunRequest :: "'c env \<Rightarrow> Request \<Rightarrow> 'c world \<Rightarrow> outcome \<times> 'c world" where
  "HandleJobRunRequest E r w =
     (if r_Method r = ''GET'' then
        (case GetRun E (Vars r ''id'') w of
           ((_, Some e), w1) \<Rightarrow> (Wrote (WriteHeader 404), w1)
         | ((run, None), w1) \<Rightarrow> (Wrote (encodeJSON 200 (JobRunResponse run)), w1))
      else if r_Method r = ''PUT'' then
        (case GetRun E (Vars r ''id'') w of
           ((_, Some e), w1) \<Rightarrow> (Wrote (WriteHeader 404), w1)
         | ((None, None), w1) \<Rightarrow> (Panicked, w1)
         | ((Some run, None), w1) \<Rightarrow>
             (case Get E (JobId run) w1 of
                ((j, _), w2) \<Rightarrow>
                  (case unmarshalJobStatus E r of
                     Inl e \<Rightarrow> (Wrote (WriteHeader 400), w2)
                   | Inr jobStatus \<Rightarrow>
                       (case Now E j w2 of
                          (None, w3) \<Rightarrow> (Panicked, w3)
                        | (Some now, w3) \<Rightarrow>
                            (case UpdateRun E
                                    (run\<lparr>Status := jobStatus,
                                         ExecutionDuration := Sub now (RanAt run)\<rparr>) w3 of
                               (Some e, w4) \<Rightarrow> (Wrote (WriteHeader 500), w4)
                             | (None, w4) \<Rightarrow>
                                 (Wrote \<lparr>code = 204, content_type = Some jsonContentType,
                                         body = Empty\<rparr>, w4))))))
      else (Wrote unwritten, w))"

subsection \<open>A registry in memory\<close>

text \<open>
  A small registry on which the handlers run on concrete requests: job id to job and
  run id to execution record, as the spec describes the registry, with a switch that
  makes the store fail and a clock. The JSON codec of jobs is a table from bodies to
  the jobs they decode to; the peer of the validation call is a function.
\<close>

record registry =
  reg_jobs :: "(string \<times> Job) list"
  reg_runs :: "(string \<times> JobStat) list"
  reg_down :: bool
  reg_clock :: Time

definition mem_Get :: "registry \<Rightarrow> string \<Rightarrow> Job option \<times> err option" where
  "mem_Get c i =
     (case map_of (reg_jobs c) i of
        None \<Rightarrow> (None, Some ''job does not exist'')
      | Some j \<Rightarrow> (Some j, None))"

definition mem_Set :: "registry \<Rightarrow> Job \<Rightarrow> err option \<times> registry" where
  "mem_Set c j =
     (if reg_down c then (Some ''store failure'', c)
      else (None, c\<lparr>reg_jobs := AList.update (Id j) j (reg_jobs c)\<rparr>))"

definition mem_GetRun :: "registry \<Rightarrow> string \<Rightarrow> JobStat option \<times> err option" where
  "mem_GetRun c i =
     (case map_of (reg_runs c) i of
        None \<Rightarrow> (None, Some ''run does not exist'')
      | Some s \<Rightarrow> (Some s, None))"

definition mem_GetAllRuns :: "registry \<Rightarrow> string \<Rightarrow> JobStat list \<times> err option" where
  "mem_GetAllRuns c i =
     (if reg_down c then ([], Some ''store failure'')
      else (filter (\<lambda>s. JobId s = i) (map snd (reg_runs c)), None))"

definition mem_UpdateRun :: "registry \<Rightarrow> JobStat \<Rightarrow> err option \<times> registry" where
  "mem_UpdateRun c s =
     (if reg_down c then (Some ''store failure'', c)
      else (None, c\<lparr>reg_runs := AList.update (StatId s) s (reg_runs c)\<rparr>))"

definition mem_Init :: "Job \<Rightarrow> registry \<Rightarrow> err option \<times> Job \<times> registry" where
  "mem_Init j c =
     (if Name j = '''' then (Some ''invalid job'', j, c)
      else if reg_down c then (Some ''store failure'', j, c)
      else
        (let j' = (if Id j = '''' then j\<lparr>Id := ''n'' @ concat (map fst (reg_jobs c))\<rparr> else j)
         in (None, j', c\<lparr>reg_jobs := AList.update (Id j') j' (reg_jobs c)\<rparr>)))"

definition mem_Delete :: "Job \<Rightarrow> registry \<Rightarrow> err option \<times> registry" where
  "mem_Delete j c =
     (if reg_down c then (Some ''store failure'', c)
      else (None, c\<lparr>reg_jobs := AList.delete (Id j) (reg_jobs c)\<rparr>))"

definition mem_DeleteAll :: "registry \<Rightarrow> err option \<times> registry" where
  "mem_DeleteAll c =
     (if reg_down c then (Some ''store failure'', c) else (None, c\<lparr>reg_jobs := []\<rparr>))"

definition mem_Disable :: "Job \<Rightarrow> registry \<Rightarrow> err option \<times> registry" where
  "mem_Disable j c = mem_Set c (j\<lparr>Disabled := True, TimerArmed := False\<rparr>)"

definition mem_Enable :: "Job \<Rightarrow> registry \<Rightarrow> err option \<times> registry" where
  "mem_Enable j c = mem_Set c (j\<lparr>Disabled := False, TimerArmed := True\<rparr>)"

definition mem_StopTimer :: "Job \<Rightarrow> registry \<Rightarrow> registry" where
  "mem_StopTimer j c = c\<lparr>reg_jobs := AList.update (Id j) (j\<lparr>TimerArmed := False\<rparr>) (reg_jobs c)\<rparr>"

definition mem_Run :: "Job \<Rightarrow> registry \<Rightarrow> registry" where
  "mem_Run j c =
     c\<lparr>reg_runs := reg_runs c @
          [(''run-of-'' @ Id j,
            \<lparr>StatId = ''run-of-'' @ Id j, JobId = Id j, RanAt = reg_clock c, NumberOfRetries = 0,
             Status = Success, ExecutionDuration = 0, Output = ''''\<rparr>)]\<rparr>"

definition mem_NewKalaStats :: "registry \<Rightarrow> KalaStats" where
  "mem_NewKalaStats c =
     \<lparr>Jobs = length (reg_jobs c),
      ActiveJobs = length (filter (\<lambda>p. \<not> Disabled (snd p)) (reg_jobs c)),
      DisabledJobs = length (filter (\<lambda>p. Disabled (snd p)) (reg_jobs c)),
      SuccessCount = length (filter (\<lambda>p. Status (snd p) = Success) (reg_runs c)),
      ErrorCount = length (filter (\<lambda>p. Status (snd p) = Failed) (reg_runs c))\<rparr>"

definition quoted :: "string \<Rightarrow> string" where
  "quoted s = CHR 0x22 # s @ [CHR 0x22]"

definition mem_Unmarshal_JobStatus :: "string \<Rightarrow> err + JobStatus" where
  "mem_Unmarshal_JobStatus b =
     (if b = quoted ''running'' then Inr Running
      else if b = quoted ''success'' then Inr Success
      else if b = quoted ''failed'' then Inr Failed
      else Inl ''invalid status'')"

definition mem_Decode_bool :: "string \<Rightarrow> err + bool" where
  "mem_Decode_bool b =
     (if b = ''true'' then Inr True
      else if b = ''false'' then Inr False
      else Inl ''cannot unmarshal into Go value of type bool'')"

definition mem_SetHeaders :: "Job \<Rightarrow> Header \<Rightarrow> string \<Rightarrow> Header" where
  "mem_SetHeaders j h token =
     (if token = '''' then Headers (RemoteProperties j)
      else AList.update ''Authorization'' [''Bearer '' @ token] (Headers (RemoteProperties j)))"

definition mem_env ::
  "(string \<times> Job) list \<Rightarrow> (http_request \<Rightarrow> Duration option \<Rightarrow> err + http_response) \<Rightarrow>
   string list \<Rightarrow> registry env" where
  "mem_env bodies peer hdrs =
     \<lparr>json_Unmarshal_Job =
        (\<lambda>b. case map_of bodies b of None \<Rightarrow> Inl ''invalid character'' | Some j \<Rightarrow> Inr j),
      json_Unmarshal_JobStatus = mem_Unmarshal_JobStatus,
      json_Decode_bool = mem_Decode_bool,
      fmt_Job = Name,
      CanonicalMIMEHeaderKey = (\<lambda>k. k),
      url_Parse = (\<lambda>u. if u = ''/validate'' then Some ''empty url'' else None),
      client_Do = peer,
      remote_headers = hdrs,
      cache_Get = mem_Get,
      cache_GetAll = reg_jobs,
      cache_Set = mem_Set,
      cache_GetRun = mem_GetRun,
      cache_GetAllRuns = mem_GetAllRuns,
      cache_UpdateRun = mem_UpdateRun,
      job_Init = mem_Init,
      job_Delete = mem_Delete,
      job_DeleteAll = mem_DeleteAll,
      job_Disable = mem_Disable,
      job_Enable = mem_Enable,
      job_StopTimer = mem_StopTimer,
      job_Run = mem_Run,
      job_Now = (\<lambda>j c. reg_clock c),
      job_ResponseTimeout = (\<lambda>j. Timeout (RemoteProperties j)),
      job_TryTemplatize = (\<lambda>j s. Inr s),
      job_SetHeaders = mem_SetHeaders,
      job_NewKalaStats = mem_NewKalaStats\<rparr>"

text \<open>Two jobs, a run of each kind, and the requests the theorems are run on.\<close>

definition remote_job :: Job where
  "remote_job =
     \<lparr>Name = ''ping'', Id = ''j1'', Owner = '''', JobType = RemoteJob, Disabled = False,
      Schedule = ''R2/2030-01-01T00:00:00Z/PT1H'', Retries = 0, Epsilon = ''PT5S'',
      ParentJobs = [], DependentJobs = [], Command = '''',
      RemoteProperties =
        \<lparr>Url = ''http://peer/hook'', Method = ''POST'', Body = ''{}'', Headers = [],
         Timeout = 0, ExpectedResponseCodes = [200]\<rparr>,
      NextRunAt = 5000, TimerArmed = True\<rparr>"

definition local_job :: Job where
  "local_job =
     \<lparr>Name = ''tick'', Id = ''j2'', Owner = ''ops'', JobType = LocalJob, Disabled = False,
      Schedule = ''R0/2030-01-01T00:00:00Z/PT1M'', Retries = 1, Epsilon = ''PT5S'',
      ParentJobs = [], DependentJobs = [], Command = ''date'',
      RemoteProperties =
        \<lparr>Url = '''', Method = '''', Body = '''', Headers = [],
         Timeout = 0, ExpectedResponseCodes = []\<rparr>,
      NextRunAt = 6000, TimerArmed = True\<rparr>"

definition finished_run :: JobStat where
  "finished_run =
     \<lparr>StatId = ''r1'', JobId = ''j1'', RanAt = 100, NumberOfRetries = 0, Status = Success,
      ExecutionDuration = 5, Output = ''ok''\<rparr>"

definition orphan_run :: JobStat where
  "orphan_run =
     \<lparr>StatId = ''r9'', JobId = ''gone'', RanAt = 200, NumberOfRetries = 0, Status = Running,
      ExecutionDuration = 0, Output = ''''\<rparr>"

definition reg0 :: registry where
  "reg0 =
     \<lparr>reg_jobs = [(''j1'', remote_job), (''j2'', local_job)],
      reg_runs = [(''r1'', finished_run), (''r9'', orphan_run)],
      reg_down = False, reg_clock = 1000\<rparr>"

definition w0 :: "registry world" where
  "w0 = \<lparr>cache = reg0, calls = []\<rparr>"

definition w_down :: "registry world" where
  "w_down = \<lparr>cache = reg0\<lparr>reg_down := True\<rparr>, calls = []\<rparr>"

definition request :: "string \<Rightarrow> string \<Rightarrow> string \<Rightarrow> Request" where
  "request m i b =
     \<lparr>r_Method = m, r_Vars = [(''id'', i)], r_Body = b, r_BodyErr = None,
      r_Header = [(''X-Tenant'', [''acme''])], r_AccessToken = None\<rparr>"

definition peer_says :: "string \<Rightarrow> http_request \<Rightarrow> Duration option \<Rightarrow> err + http_response" where
  "peer_says answer req deadline =
     Inr \<lparr>res_StatusCode = 200, res_Status = ''200 OK'', res_Body = answer\<rparr>"

definition bodies0 :: "(string \<times> Job) list" where
  "bodies0 =
     [(''remote'', remote_job\<lparr>Id := ''''\<rparr>),
      (''local'', local_job\<lparr>Id := ''other''\<rparr>),
      (''nameless'', remote_job\<lparr>Id := '''', Name := ''''\<rparr>)]"

definition env0 :: "registry env" where
  "env0 = mem_env bodies0 (peer_says ''true'') [''X-Tenant'']"

text \<open>The same, with a peer that answers false.\<close>

definition env1 :: "registry env" where
  "env1 = mem_env bodies0 (peer_says ''false'') [''X-Tenant'']"

text \<open>A body one byte longer than the limit, ending in the given byte.\<close>

definition long_body :: "char \<Rightarrow> string" where
  "long_body c = replicate body_limit CHR ''a'' @ [c]"

subsection \<open>The validation call in the spec's words\<close>

text \<open>
  The spec describes the pre-check as a POST of the templated body to the templated URL
  followed by \<^verbatim>\<open>/validate\<close>, carrying the job's headers and the forwarded ones. These
  two definitions say that, for a templated URL \<open>url\<close> and body \<open>b\<close>; the theorems
  compare them with what \<open>validateJob\<close> sends.
\<close>

definition validate_request :: "'c env \<Rightarrow> Request \<Rightarrow> Job \<Rightarrow> string \<Rightarrow> string \<Rightarrow> http_request" where
  "validate_request E r j url b =
     forward_headers E (remote_headers E) r
       \<lparr>req_method = ''POST'', req_url = validate_url url, req_body = b,
        req_header = job_SetHeaders E j [] (case r_AccessToken r of None \<Rightarrow> '''' | Some t \<Rightarrow> t)\<rparr>"

definition validate_deadline :: "'c env \<Rightarrow> Job \<Rightarrow> Duration option" where
  "validate_deadline E j =
     (if 0 < job_ResponseTimeout E j then Some (job_ResponseTimeout E j) else None)"

text \<open>The status code a handler answered with, when it returned.\<close>

definition status_of :: "outcome \<times> 'c world \<Rightarrow> nat option" where
  "status_of x = (case fst x of Wrote resp \<Rightarrow> Some (code resp) | Panicked \<Rightarrow> None)"

section \<open>Properties\<close>

subsection \<open>The registry in memory, evaluated\<close>

lemma env0_sel:
  "json_Unmarshal_Job env0 =
     (\<lambda>b. case map_of bodies0 b of None \<Rightarrow> Inl ''invalid character'' | Some j \<Rightarrow> Inr j)"
  "json_Unmarshal_JobStatus env0 = mem_Unmarshal_JobStatus"
  "json_Decode_bool env0 = mem_Decode_bool"
  "fmt_Job env0 = Name"
  "CanonicalMIMEHeaderKey env0 = (\<lambda>k. k)"
  "url_Parse env0 = (\<lambda>u. if u = ''/validate'' then Some ''empty url'' else None)"
  "client_Do env0 = peer_says ''true''"
  "remote_headers env0 = [''X-Tenant'']"
  "cache_Get env0 = mem_Get"
  "cache_Set env0 = mem_Set"
  "cache_GetRun env0 = mem_GetRun"
  "cache_GetAllRuns env0 = mem_GetAllRuns"
  "cache_UpdateRun env0 = mem_UpdateRun"
  "job_Init env0 = mem_Init"
  "job_Delete env0 = mem_Delete"
  "job_DeleteAll env0 = mem_DeleteAll"
  "job_Disable env0 = mem_Disable"
  "job_Enable env0 = mem_Enable"
  "job_Now env0 = (\<lambda>j c. reg_clock c)"
  "job_ResponseTimeout env0 = (\<lambda>j. Timeout (RemoteProperties j))"
  "job_TryTemplatize env0 = (\<lambda>j s. Inr s)"
  "job_SetHeaders env0 = mem_SetHeaders"
  by (simp_all add: env0_def mem_env_def)

lemma env1_sel:
  "json_Unmarshal_Job env1 =
     (\<lambda>b. case map_of bodies0 b of None \<Rightarrow> Inl ''invalid character'' | Some j \<Rightarrow> Inr j)"
  "json_Decode_bool env1 = mem_Decode_bool"
  "url_Parse env1 = (\<lambda>u. if u = ''/validate'' then Some ''empty url'' else None)"
  "client_Do env1 = peer_says ''false''"
  "job_TryTemplatize env1 = (\<lambda>j s. Inr s)"
  by (simp_all add: env1_def mem_env_def)

lemmas mem_defs =
  mem_Get_def mem_Set_def mem_GetRun_def mem_GetAllRuns_def mem_UpdateRun_def mem_Init_def
  mem_Delete_def mem_DeleteAll_def mem_Disable_def mem_Enable_def mem_SetHeaders_def
  mem_Unmarshal_JobStatus_def mem_Decode_bool_def peer_says_def quoted_def

lemmas sample_defs =
  request_def w0_def w_down_def reg0_def remote_job_def local_job_def finished_run_def
  orphan_run_def bodies0_def

lemmas read_defs =
  unmarshalNewJob_def unmarshalJobStatus_def ReadAll_LimitReader_def ReadAll_def body_limit_def
  Vars_def

lemmas call_defs =
  Get_def GetAll_def Set_job_def GetRun_def GetAllRuns_def UpdateRun_def Init_def Delete_def
  DeleteAll_def Disable_def Enable_def StopTimer_def Run_def Now_def Do_def NewKalaStats_def
  logged_def

lemmas write_defs =
  WriteHeader_def unwritten_def errorEncodeJSON_def encodeJSON_def handleGetJob_def
  jsonContentType_def status_of_def

lemma sample_facts:
  "Vars (request m i b) ''id'' = i" "r_Method (request m i b) = m"
  "cache w0 = reg0" "calls w0 = []" "cache w_down = reg0\<lparr>reg_down := True\<rparr>" "calls w_down = []"
  "JobId finished_run = ''j1''" "JobId orphan_run = ''gone''"
  by (simp_all add: request_def Vars_def w0_def w_down_def finished_run_def orphan_run_def)

lemma reg0_facts:
  "mem_GetRun reg0 ''r1'' = (Some finished_run, None)"
  "mem_GetRun reg0 ''r9'' = (Some orphan_run, None)"
  "mem_Get reg0 ''j1'' = (Some remote_job, None)"
  "mem_Get reg0 ''j2'' = (Some local_job, None)"
  "mem_Get reg0 ''gone'' = (None, Some ''job does not exist'')"
  "mem_Get reg0 ''nope'' = (None, Some ''job does not exist'')"
  "mem_Get (reg0\<lparr>reg_down := True\<rparr>) i = mem_Get reg0 i"
  "mem_GetRun (reg0\<lparr>reg_down := True\<rparr>) i = mem_GetRun reg0 i"
  "reg_clock reg0 = 1000" "reg_down reg0 = False"
  "RanAt finished_run = 100" "StatId finished_run = ''r1''"
  by (simp_all add: mem_Get_def mem_GetRun_def reg0_def finished_run_def)

lemma status_bodies:
  "unmarshalJobStatus env0 (request m i (quoted ''running'')) = Inr Running"
  "unmarshalJobStatus env0 (request m i (quoted ''success'')) = Inr Success"
  "unmarshalJobStatus env0 (request m i (quoted ''failed'')) = Inr Failed"
  by (simp_all add: read_defs env0_sel mem_defs request_def)

lemma Sub_small: "Sub 1000 100 = 900"
  by (simp add: Sub_def)

lemma put_r1:
  "r_Method (request ''PUT'' ''r1'' b) = ''PUT''"
  "cache_GetRun env0 (cache w0) (Vars (request ''PUT'' ''r1'' b) ''id'') = (Some finished_run, None)"
  "fst (cache_Get env0 (cache w0) (JobId finished_run)) = Some remote_job"
  by (simp_all add: env0_sel mem_defs request_def Vars_def w0_def reg0_def finished_run_def)

lemma down_facts:
  "fst (mem_Delete j (reg0\<lparr>reg_down := True\<rparr>)) = Some ''store failure''"
  "fst (mem_Disable j (reg0\<lparr>reg_down := True\<rparr>)) = Some ''store failure''"
  "fst (mem_Enable j (reg0\<lparr>reg_down := True\<rparr>)) = Some ''store failure''"
  "fst (mem_Set (reg0\<lparr>reg_down := True\<rparr>) j) = Some ''store failure''"
  "fst (mem_UpdateRun (reg0\<lparr>reg_down := True\<rparr>) s) = Some ''store failure''"
  "mem_GetAllRuns (reg0\<lparr>reg_down := True\<rparr>) i = ([], Some ''store failure'')"
  "mem_GetRun reg0 ''nope'' = (None, Some ''run does not exist'')"
  by (simp_all add: mem_defs reg0_def)

lemma job_bodies:
  "unmarshalNewJob env0 (request m i ''remote'') = Inr (remote_job\<lparr>Id := ''''\<rparr>)"
  "unmarshalNewJob env0 (request m i ''local'') = Inr (local_job\<lparr>Id := ''other''\<rparr>)"
  "unmarshalNewJob env0 (request m i ''nameless'') = Inr (remote_job\<lparr>Id := '''', Name := ''''\<rparr>)"
  by (simp_all add: read_defs env0_sel bodies0_def request_def)

lemma job_facts:
  "Id remote_job = ''j1''" "Id local_job = ''j2''"
  "JobType remote_job = RemoteJob" "JobType local_job = LocalJob"
  "Name remote_job = ''ping''" "Name local_job = ''tick''"
  "Owner remote_job = ''''" "Owner local_job = ''ops''"
  by (simp_all add: remote_job_def local_job_def)

subsection \<open>The validation call\<close>

lemma Header_Get_Set:
  "Header_Get c (Header_Set c h k v) k' = (if c k = c k' then v else Header_Get c h k')"
  by (simp add: Header_Get_def Header_Set_def update_conv')

lemma forward_headers_fields:
  "req_method (forward_headers E hs r req) = req_method req \<and>
   req_url (forward_headers E hs r req) = req_url req \<and>
   req_body (forward_headers E hs r req) = req_body req"
  by (induction hs arbitrary: req) (simp_all add: Let_def)

lemma forward_headers_keeps:
  "Header_Get (CanonicalMIMEHeaderKey E) (req_header req) h =
     Header_Get (CanonicalMIMEHeaderKey E) (r_Header r) h \<Longrightarrow>
   Header_Get (CanonicalMIMEHeaderKey E) (req_header (forward_headers E hs r req)) h =
     Header_Get (CanonicalMIMEHeaderKey E) (r_Header r) h"
proof (induction hs arbitrary: req)
  case Nil
  then show ?case by simp
next
  case (Cons k ks)
  let ?c = "CanonicalMIMEHeaderKey E"
  have same: "?c k = ?c h \<Longrightarrow> Header_Get ?c (r_Header r) k = Header_Get ?c (r_Header r) h"
    by (simp add: Header_Get_def)
  show ?case
    using Cons.prems same by (auto simp: Let_def Header_Get_Set intro!: Cons.IH)
qed

lemma forward_headers_copies:
  "h \<in> set hs \<Longrightarrow> Header_Get (CanonicalMIMEHeaderKey E) (r_Header r) h \<noteq> '''' \<Longrightarrow>
   Header_Get (CanonicalMIMEHeaderKey E) (req_header (forward_headers E hs r req)) h =
     Header_Get (CanonicalMIMEHeaderKey E) (r_Header r) h"
proof (induction hs arbitrary: req)
  case Nil
  then show ?case by simp
next
  case (Cons k ks)
  show ?case
  proof (cases "h = k")
    case True
    with Cons.prems show ?thesis
      by (simp add: Let_def forward_headers_keeps Header_Get_Set)
  next
    case False
    with Cons.prems have "h \<in> set ks" by simp
    from Cons.IH [OF this Cons.prems(2)] show ?thesis by (simp add: Let_def)
  qed
qed

lemma forward_headers_skips:
  "Header_Get (CanonicalMIMEHeaderKey E) (r_Header r) h = '''' \<Longrightarrow>
   Header_Get (CanonicalMIMEHeaderKey E) (req_header (forward_headers E hs r req)) h =
     Header_Get (CanonicalMIMEHeaderKey E) (req_header req) h"
proof (induction hs arbitrary: req)
  case Nil
  then show ?case by simp
next
  case (Cons k ks)
  let ?c = "CanonicalMIMEHeaderKey E"
  have same: "?c k = ?c h \<Longrightarrow> Header_Get ?c (r_Header r) k = Header_Get ?c (r_Header r) h"
    by (simp add: Header_Get_def)
  show ?case
    using Cons.prems same by (auto simp: Let_def Header_Get_Set Cons.IH)
qed

lemma validate_url_cases:
  "validate_url url =
     (if url \<noteq> [] \<and> last url = CHR ''/'' then url @ ''validate'' else url @ ''/validate'')"
proof (cases url rule: rev_cases)
  case Nil
  then show ?thesis by (simp add: validate_url_def HasSuffix_def)
next
  case (snoc ys y)
  then show ?thesis by (simp add: validate_url_def HasSuffix_def)
qed

lemma validateJob_cases:
  "validateJob E r j w =
     (case job_TryTemplatize E j (Url (RemoteProperties j)) of
        Inl e \<Rightarrow> (Inl e, w)
      | Inr url \<Rightarrow>
          (case job_TryTemplatize E j (Body (RemoteProperties j)) of
             Inl e \<Rightarrow> (Inl e, w)
           | Inr b \<Rightarrow>
               (case url_Parse E (validate_url url) of
                  Some e \<Rightarrow> (Inl e, w)
                | None \<Rightarrow>
                    (case client_Do E (validate_request E r j url b) (validate_deadline E j) of
                       Inl e \<Rightarrow> (Inl e, logged (Call_Do (validate_request E r j url b)) w)
                     | Inr res \<Rightarrow>
                         (if res_StatusCode res = 200
                          then (case json_Decode_bool E (res_Body res) of
                                  Inl e \<Rightarrow> Inl e
                                | Inr v \<Rightarrow> Inr v)
                          else Inl (res_Status res),
                          logged (Call_Do (validate_request E r j url b)) w)))))"
  by (auto simp: validateJob_def NewRequest_def Do_def validate_request_def validate_deadline_def
      Let_def split: sum.splits option.splits)

lemma validateJob_cache: "cache (snd (validateJob E r j w)) = cache w"
  by (simp add: validateJob_cases logged_def split: sum.splits option.splits)

lemma validateJob_calls:
  "calls (snd (validateJob E r j w)) = calls w \<or>
   (\<exists>req. calls (snd (validateJob E r j w)) = calls w @ [Call_Do req])"
  by (simp add: validateJob_cases logged_def split: sum.splits option.splits)

lemma validateJob_true:
  "fst (validateJob E r j w) = Inr True \<longleftrightarrow>
     (\<exists>url b res.
        job_TryTemplatize E j (Url (RemoteProperties j)) = Inr url \<and>
        job_TryTemplatize E j (Body (RemoteProperties j)) = Inr b \<and>
        url_Parse E (validate_url url) = None \<and>
        client_Do E (validate_request E r j url b) (validate_deadline E j) = Inr res \<and>
        res_StatusCode res = 200 \<and> json_Decode_bool E (res_Body res) = Inr True)"
  by (auto simp: validateJob_cases split: sum.splits option.splits if_splits)

lemma validateJob_true_calls:
  "fst (validateJob E r j w) = Inr True \<Longrightarrow>
   \<exists>url b. job_TryTemplatize E j (Url (RemoteProperties j)) = Inr url \<and>
     job_TryTemplatize E j (Body (RemoteProperties j)) = Inr b \<and>
     snd (validateJob E r j w) =
       \<lparr>cache = cache w, calls = calls w @ [Call_Do (validate_request E r j url b)]\<rparr>"
  by (auto simp: validateJob_cases logged_def split: sum.splits option.splits if_splits)

lemma HandleAddJob_remote:
  assumes "unmarshalNewJob E r = Inr parsed" and "JobType parsed = RemoteJob"
    and "newJob = (if defaultOwner \<noteq> '''' \<and> Owner parsed = ''''
                   then parsed\<lparr>Owner := defaultOwner\<rparr> else parsed)"
  shows "HandleAddJob E defaultOwner disableLocalJobs r w =
     (if fst (validateJob E r newJob w) = Inr True
      then (case Init E newJob (snd (validateJob E r newJob w)) of
              (Some e, newJob', w2) \<Rightarrow>
                (Wrote (errorEncodeJSON
                   (''Error occurred when initializing the job: '' @ fmt_Job E newJob') 400), w2)
            | (None, newJob', w2) \<Rightarrow>
                (Wrote (encodeJSON 201 (AddJobResponse (Id newJob'))), w2))
      else (Wrote (WriteHeader 403), snd (validateJob E r newJob w)))"
  using assms
  by (cases "validateJob E r newJob w")
     (auto simp: HandleAddJob_def Let_def split: sum.splits prod.splits option.splits)


text \<open>
  C1 (as amended). A create request carrying a remote job \<open>newJob\<close> (the submitted job,
  with the default owner filled in) goes through \<open>validateJob\<close> before \<open>Init\<close>:
  \<^item> \<open>validateJob\<close> answers true exactly when both templates expand, the URL parses,
    and the POST of \<open>validate_request\<close> is answered 200 with a body decoding to JSON
    true;
  \<^item> in every other case (a template or URL error, a transport error, a status other
    than 200, a body that is no boolean, JSON false) the answer is 403, the registry is
    the one before the request and no call but at most the POST was made;
  \<^item> when it answers true, the POST is followed by \<open>Init\<close> on \<open>newJob\<close>, and the
    request is answered 201 with the id when \<open>Init\<close> succeeds and 400 when it fails
    (the registry is then what \<open>Init\<close> left);
  \<^item> the request sent is a POST of the templated body to the templated URL followed by
    \<^verbatim>\<open>validate\<close> when the URL ends in a slash and by \<^verbatim>\<open>/validate\<close> otherwise, and
    each configured \<^verbatim>\<open>remote.headers\<close> header whose inbound value is not empty has
    that value in it.
\<close>

theorem validate_gate:
  assumes parsed: "unmarshalNewJob E r = Inr parsed"
    and remote: "JobType parsed = RemoteJob"
    and newJob: "newJob = (if defaultOwner \<noteq> '''' \<and> Owner parsed = ''''
                           then parsed\<lparr>Owner := defaultOwner\<rparr> else parsed)"
  shows
    "(fst (validateJob E r newJob w) = Inr True \<longleftrightarrow>
        (\<exists>url b res.
           job_TryTemplatize E newJob (Url (RemoteProperties newJob)) = Inr url \<and>
           job_TryTemplatize E newJob (Body (RemoteProperties newJob)) = Inr b \<and>
           url_Parse E (validate_url url) = None \<and>
           client_Do E (validate_request E r newJob url b) (validate_deadline E newJob) = Inr res \<and>
           res_StatusCode res = 200 \<and> json_Decode_bool E (res_Body res) = Inr True)) \<and>
     (fst (validateJob E r newJob w) \<noteq> Inr True \<longrightarrow>
        fst (HandleAddJob E defaultOwner disableLocalJobs r w) = Wrote (WriteHeader 403) \<and>
        cache (snd (HandleAddJob E defaultOwner disableLocalJobs r w)) = cache w \<and>
        (calls (snd (HandleAddJob E defaultOwner disableLocalJobs r w)) = calls w \<or>
         (\<exists>req. calls (snd (HandleAddJob E defaultOwner disableLocalJobs r w)) =
                  calls w @ [Call_Do req]))) \<and>
     (fst (validateJob E r newJob w) = Inr True \<longrightarrow>
        (\<exists>url b.
           job_TryTemplatize E newJob (Url (RemoteProperties newJob)) = Inr url \<and>
           job_TryTemplatize E newJob (Body (RemoteProperties newJob)) = Inr b \<and>
           HandleAddJob E defaultOwner disableLocalJobs r w =
             (case job_Init E newJob (cache w) of
                (Some e, newJob', c') \<Rightarrow>
                  (Wrote (errorEncodeJSON
                     (''Error occurred when initializing the job: '' @ fmt_Job E newJob') 400),
                   \<lparr>cache = c',
                    calls = calls w @ [Call_Do (validate_request E r newJob url b), Call_Init newJob]\<rparr>)
              | (None, newJob', c') \<Rightarrow>
                  (Wrote (encodeJSON 201 (AddJobResponse (Id newJob'))),
                   \<lparr>cache = c',
                    calls = calls w @ [Call_Do (validate_request E r newJob url b), Call_Init newJob]\<rparr>)))) \<and>
     (\<forall>url b.
        req_method (validate_request E r newJob url b) = ''POST'' \<and>
        req_body (validate_request E r newJob url b) = b \<and>
        req_url (validate_request E r newJob url b) =
          (if url \<noteq> [] \<and> last url = CHR ''/'' then url @ ''validate'' else url @ ''/validate'') \<and>
        (\<forall>h \<in> set (remote_headers E).
           Header_Get (CanonicalMIMEHeaderKey E) (r_Header r) h \<noteq> '''' \<longrightarrow>
           Header_Get (CanonicalMIMEHeaderKey E) (req_header (validate_request E r newJob url b)) h =
             Header_Get (CanonicalMIMEHeaderKey E) (r_Header r) h))"
proof -
  let ?v = "validateJob E r newJob w"
  let ?h = "HandleAddJob E defaultOwner disableLocalJobs r w"
  note step = HandleAddJob_remote [OF parsed remote newJob, of disableLocalJobs w]
  have refused: "fst ?v \<noteq> Inr True \<longrightarrow>
      fst ?h = Wrote (WriteHeader 403) \<and> cache (snd ?h) = cache w \<and>
      (calls (snd ?h) = calls w \<or> (\<exists>req. calls (snd ?h) = calls w @ [Call_Do req]))"
    using validateJob_calls [of E r newJob w]
    by (simp add: step validateJob_cache)
  have admitted: "fst ?v = Inr True \<longrightarrow>
      (\<exists>url b.
         job_TryTemplatize E newJob (Url (RemoteProperties newJob)) = Inr url \<and>
         job_TryTemplatize E newJob (Body (RemoteProperties newJob)) = Inr b \<and>
         ?h =
           (case job_Init E newJob (cache w) of
              (Some e, newJob', c') \<Rightarrow>
                (Wrote (errorEncodeJSON
                   (''Error occurred when initializing the job: '' @ fmt_Job E newJob') 400),
                 \<lparr>cache = c',
                  calls = calls w @ [Call_Do (validate_request E r newJob url b), Call_Init newJob]\<rparr>)
            | (None, newJob', c') \<Rightarrow>
                (Wrote (encodeJSON 201 (AddJobResponse (Id newJob'))),
                 \<lparr>cache = c',
                  calls = calls w @ [Call_Do (validate_request E r newJob url b), Call_Init newJob]\<rparr>)))"
  proof
    assume t: "fst ?v = Inr True"
    from validateJob_true_calls [OF t] obtain url b where
      u: "job_TryTemplatize E newJob (Url (RemoteProperties newJob)) = Inr url" and
      b: "job_TryTemplatize E newJob (Body (RemoteProperties newJob)) = Inr b" and
      w1: "snd ?v = \<lparr>cache = cache w, calls = calls w @ [Call_Do (validate_request E r newJob url b)]\<rparr>"
      by blast
    have "?h =
           (case job_Init E newJob (cache w) of
              (Some e, newJob', c') \<Rightarrow>
                (Wrote (errorEncodeJSON
                   (''Error occurred when initializing the job: '' @ fmt_Job E newJob') 400),
                 \<lparr>cache = c',
                  calls = calls w @ [Call_Do (validate_request E r newJob url b), Call_Init newJob]\<rparr>)
            | (None, newJob', c') \<Rightarrow>
                (Wrote (encodeJSON 201 (AddJobResponse (Id newJob'))),
                 \<lparr>cache = c',
                  calls = calls w @ [Call_Do (validate_request E r newJob url b), Call_Init newJob]\<rparr>))"
      by (simp add: step t w1 Init_def logged_def split: prod.splits option.splits)
    with u b show "\<exists>url b.
         job_TryTemplatize E newJob (Url (RemoteProperties newJob)) = Inr url \<and>
         job_TryTemplatize E newJob (Body (RemoteProperties newJob)) = Inr b \<and>
         ?h =
           (case job_Init E newJob (cache w) of
              (Some e, newJob', c') \<Rightarrow>
                (Wrote (errorEncodeJSON
                   (''Error occurred when initializing the job: '' @ fmt_Job E newJob') 400),
                 \<lparr>cache = c',
                  calls = calls w @ [Call_Do (validate_request E r newJob url b), Call_Init newJob]\<rparr>)
            | (None, newJob', c') \<Rightarrow>
                (Wrote (encodeJSON 201 (AddJobResponse (Id newJob'))),
                 \<lparr>cache = c',
                  calls = calls w @ [Call_Do (validate_request E r newJob url b), Call_Init newJob]\<rparr>))"
      by blast
  qed
  have sent: "\<forall>url b.
        req_method (validate_request E r newJob url b) = ''POST'' \<and>
        req_body (validate_request E r newJob url b) = b \<and>
        req_url (validate_request E r newJob url b) =
          (if url \<noteq> [] \<and> last url = CHR ''/'' then url @ ''validate'' else url @ ''/validate'') \<and>
        (\<forall>h \<in> set (remote_headers E).
           Header_Get (CanonicalMIMEHeaderKey E) (r_Header r) h \<noteq> '''' \<longrightarrow>
           Header_Get (CanonicalMIMEHeaderKey E) (req_header (validate_request E r newJob url b)) h =
             Header_Get (CanonicalMIMEHeaderKey E) (r_Header r) h)"
    using validate_url_cases
    by (simp add: validate_request_def forward_headers_fields forward_headers_copies)
  from validateJob_true [of E r newJob w] refused admitted sent show ?thesis
    by blast
qed


text \<open>
  The theorem at a create request whose peer answers true: the job is installed under
  a fresh id, after one POST to \<^verbatim>\<open>http://peer/hook/validate\<close> carrying the inbound
  \<^verbatim>\<open>X-Tenant\<close> header; and at the same request with a peer that answers false: the
  answer is 403 and the registry is the one before the request.
\<close>

theorem validate_gate_witness:
  "fst (validateJob env0 (request ''POST'' [] ''remote'') (remote_job\<lparr>Id := [], Owner := ''ops''\<rparr>) w0)
     = Inr True \<and>
   fst (HandleAddJob env0 ''ops'' False (request ''POST'' [] ''remote'') w0)
     = Wrote (encodeJSON 201 (AddJobResponse ''nj1j2'')) \<and>
   calls (snd (HandleAddJob env0 ''ops'' False (request ''POST'' [] ''remote'') w0))
     = [Call_Do (validate_request env0 (request ''POST'' [] ''remote'')
                  (remote_job\<lparr>Id := [], Owner := ''ops''\<rparr>) ''http://peer/hook'' ''{}''),
        Call_Init (remote_job\<lparr>Id := [], Owner := ''ops''\<rparr>)] \<and>
   req_url (validate_request env0 (request ''POST'' [] ''remote'')
              (remote_job\<lparr>Id := [], Owner := ''ops''\<rparr>) ''http://peer/hook'' ''{}'')
     = ''http://peer/hook/validate'' \<and>
   Header_Get (\<lambda>k. k) (req_header (validate_request env0 (request ''POST'' [] ''remote'')
              (remote_job\<lparr>Id := [], Owner := ''ops''\<rparr>) ''http://peer/hook'' ''{}'')) ''X-Tenant''
     = ''acme'' \<and>
   fst (validateJob env1 (request ''POST'' [] ''remote'') (remote_job\<lparr>Id := [], Owner := ''ops''\<rparr>) w0)
     \<noteq> Inr True \<and>
   fst (HandleAddJob env1 ''ops'' False (request ''POST'' [] ''remote'') w0) = Wrote (WriteHeader 403) \<and>
   cache (snd (HandleAddJob env1 ''ops'' False (request ''POST'' [] ''remote'') w0)) = reg0"
proof -
  have p: "unmarshalNewJob env0 (request ''POST'' [] ''remote'') = Inr (remote_job\<lparr>Id := []\<rparr>)"
    by (simp add: job_bodies)
  have p1: "unmarshalNewJob env1 (request ''POST'' [] ''remote'') = Inr (remote_job\<lparr>Id := []\<rparr>)"
    by (simp add: read_defs env1_sel bodies0_def request_def)
  have t: "JobType (remote_job\<lparr>Id := []\<rparr>) = RemoteJob"
    by (simp add: remote_job_def)
  have n: "remote_job\<lparr>Id := [], Owner := ''ops''\<rparr> =
      (if ''ops'' \<noteq> [] \<and> Owner (remote_job\<lparr>Id := []\<rparr>) = []
       then (remote_job\<lparr>Id := []\<rparr>)\<lparr>Owner := ''ops''\<rparr> else remote_job\<lparr>Id := []\<rparr>)"
    by (simp add: remote_job_def)
  have u: "validate_url ''http://peer/hook'' = ''http://peer/hook/validate''"
    by (simp add: validate_url_def HasSuffix_def)
  have i: "mem_Init (remote_job\<lparr>Id := [], Owner := ''ops''\<rparr>) reg0 =
     (None, remote_job\<lparr>Id := ''nj1j2'', Owner := ''ops''\<rparr>,
      reg0\<lparr>reg_jobs := [(''j1'', remote_job), (''j2'', local_job),
                        (''nj1j2'', remote_job\<lparr>Id := ''nj1j2'', Owner := ''ops''\<rparr>)]\<rparr>)"
    by (simp add: mem_Init_def reg0_def remote_job_def Let_def)
  have h: "Header_Get (CanonicalMIMEHeaderKey env0) (r_Header (request ''POST'' [] ''remote'')) ''X-Tenant'' = ''acme''"
    by (simp add: Header_Get_def env0_sel request_def)
  have f: "Url (RemoteProperties remote_job) = ''http://peer/hook''"
    "Body (RemoteProperties remote_job) = ''{}''"
    by (simp_all add: remote_job_def)
  note g = validate_gate [OF p t n, of w0 False]
  note g1 = validate_gate [OF p1 t n, of w0 False]
  have v: "fst (validateJob env0 (request ''POST'' [] ''remote'')
            (remote_job\<lparr>Id := [], Owner := ''ops''\<rparr>) w0) = Inr True"
    using g [THEN conjunct1] by (simp add: u f env0_sel peer_says_def mem_Decode_bool_def)
  have a: "HandleAddJob env0 ''ops'' False (request ''POST'' [] ''remote'') w0 =
     (Wrote (encodeJSON 201 (AddJobResponse ''nj1j2'')),
      \<lparr>cache = reg0\<lparr>reg_jobs := [(''j1'', remote_job), (''j2'', local_job),
                        (''nj1j2'', remote_job\<lparr>Id := ''nj1j2'', Owner := ''ops''\<rparr>)]\<rparr>,
       calls = [Call_Do (validate_request env0 (request ''POST'' [] ''remote'')
                  (remote_job\<lparr>Id := [], Owner := ''ops''\<rparr>) ''http://peer/hook'' ''{}''),
                Call_Init (remote_job\<lparr>Id := [], Owner := ''ops''\<rparr>)]\<rparr>)"
    using g [THEN conjunct2, THEN conjunct2, THEN conjunct1] v
    by (simp add: f i sample_facts env0_sel)
  have s: "req_url (validate_request env0 (request ''POST'' [] ''remote'')
              (remote_job\<lparr>Id := [], Owner := ''ops''\<rparr>) ''http://peer/hook'' ''{}'')
     = ''http://peer/hook/validate'' \<and>
   Header_Get (\<lambda>k. k) (req_header (validate_request env0 (request ''POST'' [] ''remote'')
              (remote_job\<lparr>Id := [], Owner := ''ops''\<rparr>) ''http://peer/hook'' ''{}'')) ''X-Tenant''
     = ''acme''"
    using g [THEN conjunct2, THEN conjunct2, THEN conjunct2, rule_format, of "''http://peer/hook''" "''{}''"] h
    by (simp add: env0_sel)
  have v1: "fst (validateJob env1 (request ''POST'' [] ''remote'')
            (remote_job\<lparr>Id := [], Owner := ''ops''\<rparr>) w0) \<noteq> Inr True"
    using g1 [THEN conjunct1] by (simp add: u f env1_sel peer_says_def mem_Decode_bool_def)
  have r: "fst (HandleAddJob env1 ''ops'' False (request ''POST'' [] ''remote'') w0) = Wrote (WriteHeader 403) \<and>
   cache (snd (HandleAddJob env1 ''ops'' False (request ''POST'' [] ''remote'') w0)) = reg0"
    using g1 [THEN conjunct2, THEN conjunct1] v1 by (simp add: sample_facts)
  from v a s v1 r show ?thesis by simp
qed

lemma validateJob_env0:
  "Url (RemoteProperties j) = ''http://peer/hook'' \<Longrightarrow>
   validateJob env0 r j w =
     (Inr True, logged (Call_Do (validate_request env0 r j ''http://peer/hook'' (Body (RemoteProperties j)))) w)"
  by (simp add: validateJob_cases env0_sel peer_says_def mem_Decode_bool_def validate_url_def
      HasSuffix_def)

text \<open>
  C1 as stated fails: a peer that answers 200 and true does not get the job installed
  by itself. For a job without a name the peer answers true, \<open>Init\<close> refuses the job,
  the request is answered 400 and the registry is the one before the request.
\<close>

theorem admitted_not_installed:
  "fst (validateJob env0 (request ''POST'' [] ''nameless'') (remote_job\<lparr>Id := [], Name := []\<rparr>) w0)
     = Inr True \<and>
   status_of (HandleAddJob env0 [] False (request ''POST'' [] ''nameless'') w0) = Some 400 \<and>
   cache (snd (HandleAddJob env0 [] False (request ''POST'' [] ''nameless'') w0)) = reg0"
proof -
  have p: "unmarshalNewJob env0 (request ''POST'' [] ''nameless'') = Inr (remote_job\<lparr>Id := [], Name := []\<rparr>)"
    by (simp add: read_defs env0_sel sample_defs)
  have t: "JobType (remote_job\<lparr>Id := [], Name := []\<rparr>) = RemoteJob"
    by (simp add: remote_job_def)
  have n: "remote_job\<lparr>Id := [], Name := []\<rparr> =
      (if [] \<noteq> [] \<and> Owner (remote_job\<lparr>Id := [], Name := []\<rparr>) = []
       then (remote_job\<lparr>Id := [], Name := []\<rparr>)\<lparr>Owner := []\<rparr>
       else remote_job\<lparr>Id := [], Name := []\<rparr>)"
    by simp
  have u: "Url (RemoteProperties (remote_job\<lparr>Id := [], Name := []\<rparr>)) = ''http://peer/hook''"
    by (simp add: remote_job_def)
  have i: "mem_Init (remote_job\<lparr>Id := [], Name := []\<rparr>) c =
      (Some ''invalid job'', remote_job\<lparr>Id := [], Name := []\<rparr>, c)" for c
    by (simp add: mem_Init_def)
  show ?thesis
    by (simp add: HandleAddJob_remote [OF p t n] validateJob_env0 [OF u] Init_def env0_sel i
        logged_def w0_def write_defs)
qed

subsection \<open>Delete-all under the guard\<close>

text \<open>
  C4. With the disable-delete-all option set, DELETE job/all/ is answered 403 with no
  body, and the state is the one before the request: the registry is untouched and no
  call is made to it, so no deletion is attempted.
\<close>

theorem delete_all_disabled:
  "HandleDeleteAllJobs E True r w = (Wrote (WriteHeader 403), w) \<and>
   status_of (HandleDeleteAllJobs E True r w) = Some 403 \<and>
   cache (snd (HandleDeleteAllJobs E True r w)) = cache w \<and>
   calls (snd (HandleDeleteAllJobs E True r w)) = calls w"
  by (simp add: HandleDeleteAllJobs_def status_of_def WriteHeader_def)

theorem delete_all_disabled_witness:
  "HandleDeleteAllJobs env0 True (request ''DELETE'' ''all'' []) w0 = (Wrote (WriteHeader 403), w0) \<and>
   reg_jobs (cache (snd (HandleDeleteAllJobs env0 True (request ''DELETE'' ''all'' []) w0))) =
     [(''j1'', remote_job), (''j2'', local_job)]"
  using delete_all_disabled [of env0 "request ''DELETE'' ''all'' []" w0]
  by (simp add: w0_def reg0_def)

subsection \<open>Overwriting the status of a run\<close>

lemma HandleJobRunRequest_PUT:
  assumes "r_Method r = ''PUT''"
    and "cache_GetRun E (cache w) (Vars r ''id'') = (Some run, None)"
    and "unmarshalJobStatus E r = Inr jobStatus"
  shows "HandleJobRunRequest E r w =
     (case fst (cache_Get E (cache w) (JobId run)) of
        None \<Rightarrow>
          (Panicked,
           \<lparr>cache = cache w,
            calls = calls w @ [Call_GetRun (Vars r ''id''), Call_Get (JobId run), Call_Now None]\<rparr>)
      | Some j \<Rightarrow>
          (case cache_UpdateRun E (cache w)
                  (run\<lparr>Status := jobStatus,
                       ExecutionDuration := Sub (job_Now E j (cache w)) (RanAt run)\<rparr>) of
             (e, c') \<Rightarrow>
               (Wrote (case e of
                         Some x \<Rightarrow> WriteHeader 500
                       | None \<Rightarrow> \<lparr>code = 204, content_type = Some jsonContentType, body = Empty\<rparr>),
                \<lparr>cache = c',
                 calls = calls w @
                   [Call_GetRun (Vars r ''id''), Call_Get (JobId run), Call_Now (Some j),
                    Call_UpdateRun
                      (run\<lparr>Status := jobStatus,
                           ExecutionDuration := Sub (job_Now E j (cache w)) (RanAt run)\<rparr>)]\<rparr>)))"
  using assms
  by (cases "cache_Get E (cache w) (JobId run)")
     (auto simp: HandleJobRunRequest_def call_defs split: option.splits prod.splits)

text \<open>
  C2 (as amended). On a PUT to job/{job_id}/executions/{id}/ for a run the registry
  holds, whose job the registry returns, with a status body that decodes, the handler
  looks the run and its job up, reads the job's clock, and hands \<open>UpdateRun\<close> the run
  with its status replaced by the incoming one and its execution-duration set to now
  minus ran-at, whatever the incoming status and the stored status are. The answer is
  204 when \<open>UpdateRun\<close> succeeds and 500 when it fails.
\<close>

theorem run_status_overwritten:
  assumes "r_Method r = ''PUT''"
    and "cache_GetRun E (cache w) (Vars r ''id'') = (Some run, None)"
    and "fst (cache_Get E (cache w) (JobId run)) = Some j"
    and "unmarshalJobStatus E r = Inr jobStatus"
    and "run' = run\<lparr>Status := jobStatus,
                      ExecutionDuration := Sub (job_Now E j (cache w)) (RanAt run)\<rparr>"
  shows "calls (snd (HandleJobRunRequest E r w)) =
           calls w @ [Call_GetRun (Vars r ''id''), Call_Get (JobId run), Call_Now (Some j),
                      Call_UpdateRun run'] \<and>
         cache (snd (HandleJobRunRequest E r w)) = snd (cache_UpdateRun E (cache w) run') \<and>
         status_of (HandleJobRunRequest E r w) =
           Some (if fst (cache_UpdateRun E (cache w) run') = None then 204 else 500)"
  using assms
  by (simp add: HandleJobRunRequest_PUT status_of_def WriteHeader_def
      split: prod.splits option.splits)

text \<open>
  The theorem at a finished run and the incoming status running: the run is handed to
  \<open>UpdateRun\<close> as a running one, 900 ns long.
\<close>

theorem run_status_overwritten_witness:
  "status_of (HandleJobRunRequest env0 (request ''PUT'' ''r1'' (quoted ''running'')) w0) = Some 204 \<and>
   calls (snd (HandleJobRunRequest env0 (request ''PUT'' ''r1'' (quoted ''running'')) w0)) =
     [Call_GetRun ''r1'', Call_Get ''j1'', Call_Now (Some remote_job),
      Call_UpdateRun (finished_run\<lparr>Status := Running, ExecutionDuration := 900\<rparr>)]"
proof -
  have n: "job_Now env0 remote_job (cache w0) = 1000" "RanAt finished_run = 100"
    by (simp_all add: env0_sel w0_def reg0_def finished_run_def)
  have r: "finished_run\<lparr>Status := Running, ExecutionDuration := 900\<rparr> =
      finished_run\<lparr>Status := Running,
        ExecutionDuration := Sub (job_Now env0 remote_job (cache w0)) (RanAt finished_run)\<rparr>"
    by (simp add: n Sub_small)
  have u: "fst (mem_UpdateRun reg0 s) = None" for s
    by (simp add: mem_UpdateRun_def reg0_def)
  from run_status_overwritten [OF put_r1 status_bodies(1) r] show ?thesis
    by (simp add: u sample_facts env0_sel)
qed

text \<open>
  C2 as stated fails: the run \<^verbatim>\<open>r1\<close> is no longer running (its status is success, its
  duration 5), and a PUT of the status failed still replaces both its status and its
  duration in the registry.
\<close>

theorem finished_run_overwritten:
  "Status finished_run = Success \<and> ExecutionDuration finished_run = 5 \<and>
   cache_GetRun env0 (cache w0) ''r1'' = (Some finished_run, None) \<and>
   status_of (HandleJobRunRequest env0 (request ''PUT'' ''r1'' (quoted ''failed'')) w0) = Some 204 \<and>
   cache_GetRun env0
     (cache (snd (HandleJobRunRequest env0 (request ''PUT'' ''r1'' (quoted ''failed'')) w0))) ''r1'' =
     (Some (finished_run\<lparr>Status := Failed, ExecutionDuration := 900\<rparr>), None)"
proof -
  have h: "HandleJobRunRequest env0 (request ''PUT'' ''r1'' (quoted ''failed'')) w0 =
     (Wrote \<lparr>code = 204, content_type = Some jsonContentType, body = Empty\<rparr>,
      \<lparr>cache = reg0\<lparr>reg_runs := AList.update ''r1''
                  (finished_run\<lparr>Status := Failed, ExecutionDuration := 900\<rparr>) (reg_runs reg0)\<rparr>,
       calls = [Call_GetRun ''r1'', Call_Get ''j1'', Call_Now (Some remote_job),
                Call_UpdateRun (finished_run\<lparr>Status := Failed, ExecutionDuration := 900\<rparr>)]\<rparr>)"
    by (simp add: HandleJobRunRequest_PUT [OF put_r1(1,2) status_bodies(3)] env0_sel sample_facts
        reg0_facts Sub_small mem_UpdateRun_def)
  show ?thesis
    by (simp add: h status_of_def env0_sel sample_facts reg0_facts)
       (simp add: mem_GetRun_def reg0_def finished_run_def)
qed

text \<open>
  C10. A PUT to job/{job_id}/executions/{id}/ for a run whose job the registry does not
  return should be answered with an error status, short of the call of the job's clock.
  The handler only logs the failed lookup: at the run \<^verbatim>\<open>r9\<close>, whose job is gone, with
  a status body that decodes, it goes on to call \<open>Now\<close> on the nil job and panics.
\<close>

theorem run_of_absent_job_panics:
  "cache_GetRun env0 (cache w0) ''r9'' = (Some orphan_run, None) \<and>
   cache_Get env0 (cache w0) (JobId orphan_run) = (None, Some ''job does not exist'') \<and>
   fst (HandleJobRunRequest env0 (request ''PUT'' ''r9'' (quoted ''success'')) w0) = Panicked \<and>
   calls (snd (HandleJobRunRequest env0 (request ''PUT'' ''r9'' (quoted ''success'')) w0)) =
     [Call_GetRun ''r9'', Call_Get ''gone'', Call_Now None]"
proof -
  have g: "r_Method (request ''PUT'' ''r9'' b) = ''PUT''"
    "cache_GetRun env0 (cache w0) (Vars (request ''PUT'' ''r9'' b) ''id'') = (Some orphan_run, None)" for b
    by (simp_all add: env0_sel mem_defs request_def Vars_def w0_def reg0_def)
  show ?thesis
    by (simp add: HandleJobRunRequest_PUT [OF g status_bodies(2)] env0_sel sample_facts reg0_facts)
qed


subsection \<open>The limit on request bodies\<close>

lemma limited_read_prefix:
  assumes "take n (r_Body r1) = take n (r_Body r2)" and "r_BodyErr r1 = r_BodyErr r2"
  shows "ReadAll_LimitReader r1 n = ReadAll_LimitReader r2 n"
proof (cases "n \<le> length (r_Body r1)")
  case True
  then have "length (take n (r_Body r2)) = n"
    using assms(1) by (metis length_take min.absorb2)
  then have "n \<le> length (r_Body r2)" by simp
  with True assms(1) show ?thesis by (simp add: ReadAll_LimitReader_def)
next
  case False
  then have short: "length (r_Body r1) < n" by simp
  then have "length (take n (r_Body r2)) < n"
    using assms(1) by (metis length_take min.absorb1 less_imp_le)
  then have "length (r_Body r2) < n" by simp
  with short assms show ?thesis
    by (simp add: ReadAll_LimitReader_def ReadAll_def split: option.splits)
qed

lemma limited_unmarshal_prefix:
  assumes "take body_limit (r_Body r1) = take body_limit (r_Body r2)"
    and "r_BodyErr r1 = r_BodyErr r2"
  shows "unmarshalNewJob E r1 = unmarshalNewJob E r2"
    and "unmarshalJobStatus E r1 = unmarshalJobStatus E r2"
  using limited_read_prefix [OF assms]
  by (simp_all add: unmarshalNewJob_def unmarshalJobStatus_def)

lemma HandleJobParamsRequest_PUT:
  assumes "cache_Get E (cache w) (Vars r ''id'') = (Some j, None)"
    and "JobType j = RemoteJob" and "r_Method r = ''PUT''" and "ReadAll r = Inr b"
  shows "HandleJobParamsRequest E r w =
     (case cache_Set E (cache w) (j\<lparr>RemoteProperties := (RemoteProperties j)\<lparr>Body := b\<rparr>\<rparr>) of
        (e, c') \<Rightarrow>
          (Wrote (WriteHeader (case e of Some x \<Rightarrow> 500 | None \<Rightarrow> 204)),
           \<lparr>cache = c',
            calls = calls w @
              [Call_Get (Vars r ''id''),
               Call_Set (j\<lparr>RemoteProperties := (RemoteProperties j)\<lparr>Body := b\<rparr>\<rparr>)]\<rparr>))"
  using assms
  by (auto simp: HandleJobParamsRequest_def call_defs split: option.splits prod.splits)

lemma params_put_j1:
  "HandleJobParamsRequest env0 (request ''PUT'' ''j1'' b) w0 =
     (Wrote (WriteHeader 204),
      \<lparr>cache = reg0\<lparr>reg_jobs :=
           [(''j1'', remote_job\<lparr>RemoteProperties := (RemoteProperties remote_job)\<lparr>Body := b\<rparr>\<rparr>),
            (''j2'', local_job)]\<rparr>,
       calls = [Call_Get ''j1'',
                Call_Set (remote_job\<lparr>RemoteProperties := (RemoteProperties remote_job)\<lparr>Body := b\<rparr>\<rparr>)]\<rparr>)"
proof -
  have g: "cache_Get env0 (cache w0) (Vars (request ''PUT'' ''j1'' b) ''id'') = (Some remote_job, None)"
    "JobType remote_job = RemoteJob" "r_Method (request ''PUT'' ''j1'' b) = ''PUT''"
    "ReadAll (request ''PUT'' ''j1'' b) = Inr b"
    by (simp_all add: env0_sel sample_facts reg0_facts) (simp_all add: remote_job_def ReadAll_def request_def)
  show ?thesis
    by (simp add: HandleJobParamsRequest_PUT [OF g] env0_sel sample_facts mem_Set_def)
       (simp add: reg0_def remote_job_def)
qed

text \<open>
  C3. A handler should read at most 1048576 bytes of a body, so that bodies agreeing
  on these produce the same effect. The create, replace and run-status handlers do
  (\<open>limited_unmarshal_prefix\<close>); the PUT of job/{id}/params/ reads the body whole: two
  bodies of 1048577 bytes that agree on the first 1048576 leave different bodies in the
  job of the registry.
\<close>

theorem params_body_unbounded:
  "length (long_body CHR ''x'') = body_limit + 1 \<and>
   take body_limit (long_body CHR ''x'') = take body_limit (long_body CHR ''y'') \<and>
   fst (cache_Get env0
     (cache (snd (HandleJobParamsRequest env0 (request ''PUT'' ''j1'' (long_body CHR ''x'')) w0))) ''j1'') =
     Some (remote_job\<lparr>RemoteProperties := (RemoteProperties remote_job)\<lparr>Body := long_body CHR ''x''\<rparr>\<rparr>) \<and>
   fst (cache_Get env0
     (cache (snd (HandleJobParamsRequest env0 (request ''PUT'' ''j1'' (long_body CHR ''y'')) w0))) ''j1'') =
     Some (remote_job\<lparr>RemoteProperties := (RemoteProperties remote_job)\<lparr>Body := long_body CHR ''y''\<rparr>\<rparr>) \<and>
   long_body CHR ''x'' \<noteq> long_body CHR ''y''"
  by (simp add: params_put_j1 env0_sel mem_Get_def long_body_def)

subsection \<open>Errors and status codes\<close>

lemma job_lookup_fails:
  assumes "snd (cache_Get E (cache w) (Vars r ''id'')) \<noteq> None \<or>
           fst (cache_Get E (cache w) (Vars r ''id'')) = None"
  shows "HandleJobRequest E dl r w = (Wrote (WriteHeader 404), logged (Call_Get (Vars r ''id'')) w)"
    and "HandleJobParamsRequest E r w = (Wrote (WriteHeader 404), logged (Call_Get (Vars r ''id'')) w)"
    and "HandleStartJobRequest E r w = (Wrote (WriteHeader 404), logged (Call_Get (Vars r ''id'')) w)"
    and "HandleDisableJobRequest E r w = (Wrote (WriteHeader 404), logged (Call_Get (Vars r ''id'')) w)"
    and "HandleEnableJobRequest E r w = (Wrote (WriteHeader 404), logged (Call_Get (Vars r ''id'')) w)"
  using assms
  by (cases "cache_Get E (cache w) (Vars r ''id'')";
      auto simp: HandleJobRequest_def HandleJobParamsRequest_def HandleStartJobRequest_def
        HandleDisableJobRequest_def HandleEnableJobRequest_def Get_def
        split: option.splits)+

lemma HandleListJobRunsRequest_cases:
  "HandleListJobRunsRequest E r w =
     (case snd (cache_Get E (cache w) (Vars r ''id'')) of
        Some e \<Rightarrow> (Wrote (WriteHeader 404), logged (Call_Get (Vars r ''id'')) w)
      | None \<Rightarrow>
          (case cache_GetAllRuns E (cache w) (Vars r ''id'') of
             (allJobs, e) \<Rightarrow>
               (Wrote (case e of
                         Some x \<Rightarrow> WriteHeader 404
                       | None \<Rightarrow> encodeJSON 200 (ListJobStatsResponse allJobs)),
                logged (Call_GetAllRuns (Vars r ''id'')) (logged (Call_Get (Vars r ''id'')) w))))"
  by (cases "cache_Get E (cache w) (Vars r ''id'')")
     (auto simp: HandleListJobRunsRequest_def Get_def GetAllRuns_def logged_def
       split: option.splits prod.splits)

lemma run_lookup_fails:
  assumes "r_Method r = ''GET'' \<or> r_Method r = ''PUT''"
    and "snd (cache_GetRun E (cache w) (Vars r ''id'')) \<noteq> None"
  shows "HandleJobRunRequest E r w = (Wrote (WriteHeader 404), logged (Call_GetRun (Vars r ''id'')) w)"
  using assms
  by (cases "cache_GetRun E (cache w) (Vars r ''id'')")
     (auto simp: HandleJobRunRequest_def GetRun_def split: option.splits)

lemma job_operation_fails:
  assumes "cache_Get E (cache w) (Vars r ''id'') = (Some j, None)"
  shows "r_Method r = ''DELETE'' \<Longrightarrow> fst (job_Delete E j (cache w)) \<noteq> None \<Longrightarrow>
           status_of (HandleJobRequest E dl r w) = Some 500"
    and "fst (job_Disable E j (cache w)) \<noteq> None \<Longrightarrow>
           status_of (HandleDisableJobRequest E r w) = Some 500"
    and "fst (job_Enable E j (cache w)) \<noteq> None \<Longrightarrow>
           status_of (HandleEnableJobRequest E r w) = Some 500"
  using assms
  by (auto simp: HandleJobRequest_def HandleDisableJobRequest_def HandleEnableJobRequest_def
      call_defs status_of_def errorEncodeJSON_def split: option.splits prod.splits)

text \<open>
  C5 (as amended). Errors are mapped to status codes by kind. A request for a job id
  whose lookup in the registry returns an error or no job is answered 404 by the
  handlers of job/{id}/, job/{id}/params/, job/start/{id}/, job/disable/{id}/ and
  job/enable/{id}/; the listing of runs answers 404 when the lookup returns an error;
  a GET or PUT for a run whose lookup returns an error is answered 404. On a job the
  registry returns, a failing delete, disable or enable is answered 500, and so is a
  failing update of a run whose job the registry returns; a failing listing of the
  job's runs is answered 404.
\<close>

theorem error_statuses:
  "(snd (cache_Get E (cache w) (Vars r ''id'')) \<noteq> None \<or>
    fst (cache_Get E (cache w) (Vars r ''id'')) = None \<longrightarrow>
      status_of (HandleJobRequest E dl r w) = Some 404 \<and>
      status_of (HandleJobParamsRequest E r w) = Some 404 \<and>
      status_of (HandleStartJobRequest E r w) = Some 404 \<and>
      status_of (HandleDisableJobRequest E r w) = Some 404 \<and>
      status_of (HandleEnableJobRequest E r w) = Some 404) \<and>
   (snd (cache_Get E (cache w) (Vars r ''id'')) \<noteq> None \<longrightarrow>
      status_of (HandleListJobRunsRequest E r w) = Some 404) \<and>
   ((r_Method r = ''GET'' \<or> r_Method r = ''PUT'') \<and>
    snd (cache_GetRun E (cache w) (Vars r ''id'')) \<noteq> None \<longrightarrow>
      status_of (HandleJobRunRequest E r w) = Some 404) \<and>
   (cache_Get E (cache w) (Vars r ''id'') = (Some j, None) \<longrightarrow>
      (r_Method r = ''DELETE'' \<and> fst (job_Delete E j (cache w)) \<noteq> None \<longrightarrow>
         status_of (HandleJobRequest E dl r w) = Some 500) \<and>
      (fst (job_Disable E j (cache w)) \<noteq> None \<longrightarrow>
         status_of (HandleDisableJobRequest E r w) = Some 500) \<and>
      (fst (job_Enable E j (cache w)) \<noteq> None \<longrightarrow>
         status_of (HandleEnableJobRequest E r w) = Some 500) \<and>
      (snd (cache_GetAllRuns E (cache w) (Vars r ''id'')) \<noteq> None \<longrightarrow>
         status_of (HandleListJobRunsRequest E r w) = Some 404)) \<and>
   (r_Method r = ''PUT'' \<and>
    cache_GetRun E (cache w) (Vars r ''id'') = (Some run, None) \<and>
    fst (cache_Get E (cache w) (JobId run)) = Some owner \<and>
    unmarshalJobStatus E r = Inr jobStatus \<and>
    fst (cache_UpdateRun E (cache w)
          (run\<lparr>Status := jobStatus,
               ExecutionDuration := Sub (job_Now E owner (cache w)) (RanAt run)\<rparr>)) \<noteq> None \<longrightarrow>
      status_of (HandleJobRunRequest E r w) = Some 500)"
proof -
  have missing: "snd (cache_Get E (cache w) (Vars r ''id'')) \<noteq> None \<or>
    fst (cache_Get E (cache w) (Vars r ''id'')) = None \<longrightarrow>
      status_of (HandleJobRequest E dl r w) = Some 404 \<and>
      status_of (HandleJobParamsRequest E r w) = Some 404 \<and>
      status_of (HandleStartJobRequest E r w) = Some 404 \<and>
      status_of (HandleDisableJobRequest E r w) = Some 404 \<and>
      status_of (HandleEnableJobRequest E r w) = Some 404"
    by (simp add: job_lookup_fails status_of_def WriteHeader_def)
  have listing: "snd (cache_Get E (cache w) (Vars r ''id'')) \<noteq> None \<longrightarrow>
      status_of (HandleListJobRunsRequest E r w) = Some 404"
    by (auto simp: HandleListJobRunsRequest_cases status_of_def WriteHeader_def)
  have run_missing: "(r_Method r = ''GET'' \<or> r_Method r = ''PUT'') \<and>
    snd (cache_GetRun E (cache w) (Vars r ''id'')) \<noteq> None \<longrightarrow>
      status_of (HandleJobRunRequest E r w) = Some 404"
    by (simp add: run_lookup_fails status_of_def WriteHeader_def)
  have failing: "cache_Get E (cache w) (Vars r ''id'') = (Some j, None) \<longrightarrow>
      (r_Method r = ''DELETE'' \<and> fst (job_Delete E j (cache w)) \<noteq> None \<longrightarrow>
         status_of (HandleJobRequest E dl r w) = Some 500) \<and>
      (fst (job_Disable E j (cache w)) \<noteq> None \<longrightarrow>
         status_of (HandleDisableJobRequest E r w) = Some 500) \<and>
      (fst (job_Enable E j (cache w)) \<noteq> None \<longrightarrow>
         status_of (HandleEnableJobRequest E r w) = Some 500) \<and>
      (snd (cache_GetAllRuns E (cache w) (Vars r ''id'')) \<noteq> None \<longrightarrow>
         status_of (HandleListJobRunsRequest E r w) = Some 404)"
  proof (intro impI conjI)
    assume g: "cache_Get E (cache w) (Vars r ''id'') = (Some j, None)"
    show "status_of (HandleJobRequest E dl r w) = Some 500"
      if "r_Method r = ''DELETE'' \<and> fst (job_Delete E j (cache w)) \<noteq> None"
      using that job_operation_fails(1) [OF g] by blast
    show "status_of (HandleDisableJobRequest E r w) = Some 500"
      if "fst (job_Disable E j (cache w)) \<noteq> None"
      using that job_operation_fails(2) [OF g] by blast
    show "status_of (HandleEnableJobRequest E r w) = Some 500"
      if "fst (job_Enable E j (cache w)) \<noteq> None"
      using that job_operation_fails(3) [OF g] by blast
    show "status_of (HandleListJobRunsRequest E r w) = Some 404"
      if "snd (cache_GetAllRuns E (cache w) (Vars r ''id'')) \<noteq> None"
      using that g
      by (auto simp: HandleListJobRunsRequest_cases status_of_def WriteHeader_def
          split: prod.splits)
  qed
  have update: "r_Method r = ''PUT'' \<and>
    cache_GetRun E (cache w) (Vars r ''id'') = (Some run, None) \<and>
    fst (cache_Get E (cache w) (JobId run)) = Some owner \<and>
    unmarshalJobStatus E r = Inr jobStatus \<and>
    fst (cache_UpdateRun E (cache w)
          (run\<lparr>Status := jobStatus,
               ExecutionDuration := Sub (job_Now E owner (cache w)) (RanAt run)\<rparr>)) \<noteq> None \<longrightarrow>
      status_of (HandleJobRunRequest E r w) = Some 500"
    by (auto simp: HandleJobRunRequest_PUT status_of_def WriteHeader_def split: prod.splits)
  from missing listing run_missing failing update show ?thesis by blast
qed

text \<open>
  The theorem at an id the registry does not know, at the job \<^verbatim>\<open>j1\<close> while the store
  is down, and at an update of the run \<^verbatim>\<open>r1\<close> while the store is down.
\<close>

theorem error_statuses_witness:
  "status_of (HandleJobRequest env0 False (request ''GET'' ''nope'' []) w0) = Some 404 \<and>
   status_of (HandleJobParamsRequest env0 (request ''GET'' ''nope'' []) w0) = Some 404 \<and>
   status_of (HandleStartJobRequest env0 (request ''GET'' ''nope'' []) w0) = Some 404 \<and>
   status_of (HandleDisableJobRequest env0 (request ''GET'' ''nope'' []) w0) = Some 404 \<and>
   status_of (HandleEnableJobRequest env0 (request ''GET'' ''nope'' []) w0) = Some 404 \<and>
   status_of (HandleListJobRunsRequest env0 (request ''GET'' ''nope'' []) w0) = Some 404 \<and>
   status_of (HandleJobRunRequest env0 (request ''GET'' ''nope'' []) w0) = Some 404 \<and>
   status_of (HandleJobRequest env0 False (request ''DELETE'' ''j1'' []) w_down) = Some 500 \<and>
   status_of (HandleDisableJobRequest env0 (request ''DELETE'' ''j1'' []) w_down) = Some 500 \<and>
   status_of (HandleEnableJobRequest env0 (request ''DELETE'' ''j1'' []) w_down) = Some 500 \<and>
   status_of (HandleListJobRunsRequest env0 (request ''DELETE'' ''j1'' []) w_down) = Some 404 \<and>
   status_of (HandleJobRunRequest env0 (request ''PUT'' ''r1'' (quoted ''failed'')) w_down) = Some 500"
proof -
  note absent = error_statuses [where E = env0 and w = w0 and r = "request ''GET'' ''nope'' []"
      and dl = False]
  note failing = error_statuses [where E = env0 and w = w_down and r = "request ''DELETE'' ''j1'' []"
      and dl = False and j = remote_job]
  note update = error_statuses [where E = env0 and w = w_down
      and r = "request ''PUT'' ''r1'' (quoted ''failed'')" and run = finished_run
      and owner = remote_job and jobStatus = Failed]
  have a: "status_of (HandleJobRequest env0 False (request ''GET'' ''nope'' []) w0) = Some 404 \<and>
   status_of (HandleJobParamsRequest env0 (request ''GET'' ''nope'' []) w0) = Some 404 \<and>
   status_of (HandleStartJobRequest env0 (request ''GET'' ''nope'' []) w0) = Some 404 \<and>
   status_of (HandleDisableJobRequest env0 (request ''GET'' ''nope'' []) w0) = Some 404 \<and>
   status_of (HandleEnableJobRequest env0 (request ''GET'' ''nope'' []) w0) = Some 404 \<and>
   status_of (HandleListJobRunsRequest env0 (request ''GET'' ''nope'' []) w0) = Some 404 \<and>
   status_of (HandleJobRunRequest env0 (request ''GET'' ''nope'' []) w0) = Some 404"
    using absent by (simp add: env0_sel sample_facts reg0_facts down_facts)
  have f: "status_of (HandleJobRequest env0 False (request ''DELETE'' ''j1'' []) w_down) = Some 500 \<and>
   status_of (HandleDisableJobRequest env0 (request ''DELETE'' ''j1'' []) w_down) = Some 500 \<and>
   status_of (HandleEnableJobRequest env0 (request ''DELETE'' ''j1'' []) w_down) = Some 500 \<and>
   status_of (HandleListJobRunsRequest env0 (request ''DELETE'' ''j1'' []) w_down) = Some 404"
    using failing by (simp add: env0_sel sample_facts reg0_facts down_facts)
  have u: "status_of (HandleJobRunRequest env0 (request ''PUT'' ''r1'' (quoted ''failed'')) w_down) = Some 500"
    using update by (simp add: env0_sel sample_facts reg0_facts down_facts status_bodies)
  from a f u show ?thesis by simp
qed

text \<open>
  C5 as stated fails for the listing of runs: the job \<^verbatim>\<open>j1\<close> is in the registry, the
  listing of its runs fails, and the answer is 404, not 500.
\<close>

theorem listing_failure_404:
  "cache_Get env0 (cache w_down) ''j1'' = (Some remote_job, None) \<and>
   snd (cache_GetAllRuns env0 (cache w_down) ''j1'') = Some ''store failure'' \<and>
   status_of (HandleListJobRunsRequest env0 (request ''GET'' ''j1'' []) w_down) = Some 404"
  by (simp add: HandleListJobRunsRequest_cases env0_sel sample_facts reg0_facts down_facts
      status_of_def WriteHeader_def)

subsection \<open>Replacing a job\<close>

lemma HandleJobRequest_PUT:
  assumes "r_Method r = ''PUT''"
    and "cache_Get E (cache w) (Vars r ''id'') = (Some j, None)"
    and "unmarshalNewJob E r = Inr updatedJob"
  shows "HandleJobRequest E disableLocalJobs r w =
     (if disableLocalJobs \<and> JobType updatedJob = LocalJob
      then (Wrote (errorEncodeJSON ''local jobs are disabled'' 403),
            logged (Call_Get (Vars r ''id'')) w)
      else
        (case job_Init E (updatedJob\<lparr>Id := Id j\<rparr>) (cache w) of
           (e, updatedJob', c') \<Rightarrow>
             (Wrote (case e of
                       Some x \<Rightarrow>
                         errorEncodeJSON
                           (''Error occurred when initializing the job: '' @ fmt_Job E updatedJob') 400
                     | None \<Rightarrow> handleGetJob updatedJob'),
              \<lparr>cache = c',
               calls = calls w @ [Call_Get (Vars r ''id''), Call_Init (updatedJob\<lparr>Id := Id j\<rparr>)]\<rparr>)))"
  using assms
  by (auto simp: HandleJobRequest_def call_defs split: option.splits prod.splits)

text \<open>
  C6 (as amended). On a PUT to job/{id}/ for a job \<open>j\<close> the registry returns, with a
  body that decodes to \<open>updatedJob\<close> and that the local-jobs policy does not refuse,
  the handler makes two calls, the lookup and \<open>Init\<close>, and the job it hands to \<open>Init\<close>
  is \<open>updatedJob\<close> with its id replaced by the id of \<open>j\<close>, whatever id the body
  carried. The registry is then what \<open>Init\<close> left; the answer is 200 with the job as
  \<open>Init\<close> left it when \<open>Init\<close> succeeds, and 400 when it fails. A PUT to an id whose
  lookup returns an error or no job is answered 404 after the lookup alone, and the
  registry is untouched.
\<close>

theorem replace_keeps_id:
  "(r_Method r = ''PUT'' \<and>
    cache_Get E (cache w) (Vars r ''id'') = (Some j, None) \<and>
    unmarshalNewJob E r = Inr updatedJob \<and>
    \<not> (disableLocalJobs \<and> JobType updatedJob = LocalJob) \<longrightarrow>
      calls (snd (HandleJobRequest E disableLocalJobs r w)) =
        calls w @ [Call_Get (Vars r ''id''), Call_Init (updatedJob\<lparr>Id := Id j\<rparr>)] \<and>
      Id (updatedJob\<lparr>Id := Id j\<rparr>) = Id j \<and>
      (\<forall>i. (updatedJob\<lparr>Id := i\<rparr>)\<lparr>Id := Id j\<rparr> = updatedJob\<lparr>Id := Id j\<rparr>) \<and>
      cache (snd (HandleJobRequest E disableLocalJobs r w)) =
        snd (snd (job_Init E (updatedJob\<lparr>Id := Id j\<rparr>) (cache w))) \<and>
      fst (HandleJobRequest E disableLocalJobs r w) =
        Wrote (case fst (job_Init E (updatedJob\<lparr>Id := Id j\<rparr>) (cache w)) of
                 None \<Rightarrow> handleGetJob (fst (snd (job_Init E (updatedJob\<lparr>Id := Id j\<rparr>) (cache w))))
               | Some e \<Rightarrow>
                   errorEncodeJSON
                     (''Error occurred when initializing the job: '' @
                      fmt_Job E (fst (snd (job_Init E (updatedJob\<lparr>Id := Id j\<rparr>) (cache w))))) 400)) \<and>
   (snd (cache_Get E (cache w) (Vars r ''id'')) \<noteq> None \<or>
    fst (cache_Get E (cache w) (Vars r ''id'')) = None \<longrightarrow>
      HandleJobRequest E disableLocalJobs r w =
        (Wrote (WriteHeader 404), \<lparr>cache = cache w, calls = calls w @ [Call_Get (Vars r ''id'')]\<rparr>))"
proof (intro conjI impI)
  assume "snd (cache_Get E (cache w) (Vars r ''id'')) \<noteq> None \<or>
    fst (cache_Get E (cache w) (Vars r ''id'')) = None"
  then show "HandleJobRequest E disableLocalJobs r w =
        (Wrote (WriteHeader 404), \<lparr>cache = cache w, calls = calls w @ [Call_Get (Vars r ''id'')]\<rparr>)"
    by (simp add: job_lookup_fails logged_def)
next
  assume a: "r_Method r = ''PUT'' \<and>
    cache_Get E (cache w) (Vars r ''id'') = (Some j, None) \<and>
    unmarshalNewJob E r = Inr updatedJob \<and>
    \<not> (disableLocalJobs \<and> JobType updatedJob = LocalJob)"
  then have h: "HandleJobRequest E disableLocalJobs r w =
        (case job_Init E (updatedJob\<lparr>Id := Id j\<rparr>) (cache w) of
           (e, updatedJob', c') \<Rightarrow>
             (Wrote (case e of
                       Some x \<Rightarrow>
                         errorEncodeJSON
                           (''Error occurred when initializing the job: '' @ fmt_Job E updatedJob') 400
                     | None \<Rightarrow> handleGetJob updatedJob'),
              \<lparr>cache = c',
               calls = calls w @ [Call_Get (Vars r ''id''), Call_Init (updatedJob\<lparr>Id := Id j\<rparr>)]\<rparr>))"
    using HandleJobRequest_PUT [of r E w j updatedJob disableLocalJobs] by auto
  show "calls (snd (HandleJobRequest E disableLocalJobs r w)) =
        calls w @ [Call_Get (Vars r ''id''), Call_Init (updatedJob\<lparr>Id := Id j\<rparr>)]"
    by (simp add: h split: prod.splits)
  show "cache (snd (HandleJobRequest E disableLocalJobs r w)) =
        snd (snd (job_Init E (updatedJob\<lparr>Id := Id j\<rparr>) (cache w)))"
    by (simp add: h split: prod.splits)
  show "fst (HandleJobRequest E disableLocalJobs r w) =
        Wrote (case fst (job_Init E (updatedJob\<lparr>Id := Id j\<rparr>) (cache w)) of
                 None \<Rightarrow> handleGetJob (fst (snd (job_Init E (updatedJob\<lparr>Id := Id j\<rparr>) (cache w))))
               | Some e \<Rightarrow>
                   errorEncodeJSON
                     (''Error occurred when initializing the job: '' @
                      fmt_Job E (fst (snd (job_Init E (updatedJob\<lparr>Id := Id j\<rparr>) (cache w))))) 400)"
    by (simp add: h split: prod.splits option.splits)
qed simp_all

text \<open>
  The theorem at a PUT to job/j1/ whose body carries the id \<^verbatim>\<open>other\<close>: the job is
  installed under \<^verbatim>\<open>j1\<close>; and at a PUT to an id the registry does not know.
\<close>

theorem replace_keeps_id_witness:
  "fst (HandleJobRequest env0 False (request ''PUT'' ''j1'' ''local'') w0) =
     Wrote (handleGetJob (local_job\<lparr>Id := ''j1''\<rparr>)) \<and>
   calls (snd (HandleJobRequest env0 False (request ''PUT'' ''j1'' ''local'') w0)) =
     [Call_Get ''j1'', Call_Init (local_job\<lparr>Id := ''j1''\<rparr>)] \<and>
   reg_jobs (cache (snd (HandleJobRequest env0 False (request ''PUT'' ''j1'' ''local'') w0))) =
     [(''j1'', local_job\<lparr>Id := ''j1''\<rparr>), (''j2'', local_job)] \<and>
   HandleJobRequest env0 False (request ''PUT'' ''nope'' ''local'') w0 =
     (Wrote (WriteHeader 404), \<lparr>cache = reg0, calls = [Call_Get ''nope'']\<rparr>)"
proof -
  note present = replace_keeps_id [where E = env0 and w = w0 and r = "request ''PUT'' ''j1'' ''local''"
      and disableLocalJobs = False and j = remote_job and updatedJob = "local_job\<lparr>Id := ''other''\<rparr>"]
  note absent = replace_keeps_id [where E = env0 and w = w0 and r = "request ''PUT'' ''nope'' ''local''"
      and disableLocalJobs = False]
  have i: "mem_Init (local_job\<lparr>Id := ''j1''\<rparr>) reg0 =
      (None, local_job\<lparr>Id := ''j1''\<rparr>,
       reg0\<lparr>reg_jobs := [(''j1'', local_job\<lparr>Id := ''j1''\<rparr>), (''j2'', local_job)]\<rparr>)"
    by (simp add: mem_Init_def reg0_def local_job_def Let_def)
  have p: "fst (HandleJobRequest env0 False (request ''PUT'' ''j1'' ''local'') w0) =
     Wrote (handleGetJob (local_job\<lparr>Id := ''j1''\<rparr>)) \<and>
   calls (snd (HandleJobRequest env0 False (request ''PUT'' ''j1'' ''local'') w0)) =
     [Call_Get ''j1'', Call_Init (local_job\<lparr>Id := ''j1''\<rparr>)] \<and>
   reg_jobs (cache (snd (HandleJobRequest env0 False (request ''PUT'' ''j1'' ''local'') w0))) =
     [(''j1'', local_job\<lparr>Id := ''j1''\<rparr>), (''j2'', local_job)]"
    using present by (simp add: env0_sel sample_facts reg0_facts job_bodies job_facts i)
  have a: "HandleJobRequest env0 False (request ''PUT'' ''nope'' ''local'') w0 =
     (Wrote (WriteHeader 404), \<lparr>cache = reg0, calls = [Call_Get ''nope'']\<rparr>)"
    using absent by (simp add: env0_sel sample_facts reg0_facts)
  from p a show ?thesis by simp
qed

text \<open>
  C6 as stated fails: the job \<^verbatim>\<open>j1\<close> exists and the body is well formed, but it
  describes a local job while local jobs are disabled; the answer is 403, not 200, and
  nothing is installed.
\<close>

theorem replace_refused_by_policy:
  "cache_Get env0 (cache w0) ''j1'' = (Some remote_job, None) \<and>
   unmarshalNewJob env0 (request ''PUT'' ''j1'' ''local'') = Inr (local_job\<lparr>Id := ''other''\<rparr>) \<and>
   HandleJobRequest env0 True (request ''PUT'' ''j1'' ''local'') w0 =
     (Wrote (errorEncodeJSON ''local jobs are disabled'' 403),
      \<lparr>cache = reg0, calls = [Call_Get ''j1'']\<rparr>)"
proof -
  have g: "r_Method (request ''PUT'' ''j1'' ''local'') = ''PUT''"
    "cache_Get env0 (cache w0) (Vars (request ''PUT'' ''j1'' ''local'') ''id'') = (Some remote_job, None)"
    by (simp_all add: env0_sel sample_facts reg0_facts)
  show ?thesis
    by (simp add: HandleJobRequest_PUT [OF g job_bodies(2)] env0_sel sample_facts reg0_facts
        job_bodies job_facts logged_def)
qed

subsection \<open>Replacing the parameters of a remote job\<close>

text \<open>
  C7 (as amended). On a PUT to job/{id}/params/ for a remote job \<open>j\<close> the registry
  returns, with a body \<open>b\<close> that is read without error, the handler makes two calls,
  the lookup and \<open>Set\<close> (no \<open>Init\<close>, no timer call), and the job \<open>j'\<close> it hands
  to \<open>Set\<close> has the remote body \<open>b\<close> and every other field of \<open>j\<close>, among them
  the schedule, next-run-at and the timer state. The answer is 204 when \<open>Set\<close>
  succeeds and 500 when it fails. For a job that is not remote, the answer to any
  request on the params path, GET and PUT among them, is 403 after the lookup alone,
  and the registry is untouched.
\<close>

theorem params_put_frame:
  "(cache_Get E (cache w) (Vars r ''id'') = (Some j, None) \<and> JobType j = RemoteJob \<and>
    r_Method r = ''PUT'' \<and> ReadAll r = Inr b \<and>
    j' = j\<lparr>RemoteProperties := (RemoteProperties j)\<lparr>Body := b\<rparr>\<rparr> \<longrightarrow>
      calls (snd (HandleJobParamsRequest E r w)) =
        calls w @ [Call_Get (Vars r ''id''), Call_Set j'] \<and>
      cache (snd (HandleJobParamsRequest E r w)) = snd (cache_Set E (cache w) j') \<and>
      status_of (HandleJobParamsRequest E r w) =
        Some (if fst (cache_Set E (cache w) j') = None then 204 else 500) \<and>
      Body (RemoteProperties j') = b \<and>
      Url (RemoteProperties j') = Url (RemoteProperties j) \<and>
      Method (RemoteProperties j') = Method (RemoteProperties j) \<and>
      Headers (RemoteProperties j') = Headers (RemoteProperties j) \<and>
      Timeout (RemoteProperties j') = Timeout (RemoteProperties j) \<and>
      ExpectedResponseCodes (RemoteProperties j') = ExpectedResponseCodes (RemoteProperties j) \<and>
      Name j' = Name j \<and> Id j' = Id j \<and> Owner j' = Owner j \<and> JobType j' = JobType j \<and>
      Disabled j' = Disabled j \<and> Schedule j' = Schedule j \<and> Retries j' = Retries j \<and>
      Epsilon j' = Epsilon j \<and> ParentJobs j' = ParentJobs j \<and>
      DependentJobs j' = DependentJobs j \<and> Command j' = Command j \<and>
      NextRunAt j' = NextRunAt j \<and> TimerArmed j' = TimerArmed j) \<and>
   (cache_Get E (cache w) (Vars r ''id'') = (Some j, None) \<and> JobType j \<noteq> RemoteJob \<longrightarrow>
      HandleJobParamsRequest E r w =
        (Wrote (errorEncodeJSON ''Job is not a remote job'' 403),
         \<lparr>cache = cache w, calls = calls w @ [Call_Get (Vars r ''id'')]\<rparr>))"
proof (intro conjI impI)
  assume "cache_Get E (cache w) (Vars r ''id'') = (Some j, None) \<and> JobType j \<noteq> RemoteJob"
  then show "HandleJobParamsRequest E r w =
        (Wrote (errorEncodeJSON ''Job is not a remote job'' 403),
         \<lparr>cache = cache w, calls = calls w @ [Call_Get (Vars r ''id'')]\<rparr>)"
    by (simp add: HandleJobParamsRequest_def Get_def logged_def)
next
  assume a: "cache_Get E (cache w) (Vars r ''id'') = (Some j, None) \<and> JobType j = RemoteJob \<and>
    r_Method r = ''PUT'' \<and> ReadAll r = Inr b \<and>
    j' = j\<lparr>RemoteProperties := (RemoteProperties j)\<lparr>Body := b\<rparr>\<rparr>"
  then have h: "HandleJobParamsRequest E r w =
     (case cache_Set E (cache w) j' of
        (e, c') \<Rightarrow>
          (Wrote (WriteHeader (case e of Some x \<Rightarrow> 500 | None \<Rightarrow> 204)),
           \<lparr>cache = c', calls = calls w @ [Call_Get (Vars r ''id''), Call_Set j']\<rparr>))"
    using HandleJobParamsRequest_PUT [of E w r j b] by simp
  show "calls (snd (HandleJobParamsRequest E r w)) =
        calls w @ [Call_Get (Vars r ''id''), Call_Set j']"
    by (simp add: h split: prod.splits)
  show "cache (snd (HandleJobParamsRequest E r w)) = snd (cache_Set E (cache w) j')"
    by (simp add: h split: prod.splits)
  show "status_of (HandleJobParamsRequest E r w) =
        Some (if fst (cache_Set E (cache w) j') = None then 204 else 500)"
    by (auto simp: h status_of_def WriteHeader_def split: prod.splits option.splits)
qed simp_all

text \<open>
  The theorem at a PUT for the remote job \<^verbatim>\<open>j1\<close>, and at a GET and a PUT for the local
  job \<^verbatim>\<open>j2\<close>.
\<close>

theorem params_put_frame_witness:
  "status_of (HandleJobParamsRequest env0 (request ''PUT'' ''j1'' ''{x}'') w0) = Some 204 \<and>
   calls (snd (HandleJobParamsRequest env0 (request ''PUT'' ''j1'' ''{x}'') w0)) =
     [Call_Get ''j1'',
      Call_Set (remote_job\<lparr>RemoteProperties := (RemoteProperties remote_job)\<lparr>Body := ''{x}''\<rparr>\<rparr>)] \<and>
   HandleJobParamsRequest env0 (request ''GET'' ''j2'' []) w0 =
     (Wrote (errorEncodeJSON ''Job is not a remote job'' 403),
      \<lparr>cache = reg0, calls = [Call_Get ''j2'']\<rparr>) \<and>
   HandleJobParamsRequest env0 (request ''PUT'' ''j2'' ''{x}'') w0 =
     (Wrote (errorEncodeJSON ''Job is not a remote job'' 403),
      \<lparr>cache = reg0, calls = [Call_Get ''j2'']\<rparr>)"
proof -
  note remote = params_put_frame [where E = env0 and w = w0 and r = "request ''PUT'' ''j1'' ''{x}''"
      and j = remote_job and b = "''{x}''"
      and j' = "remote_job\<lparr>RemoteProperties := (RemoteProperties remote_job)\<lparr>Body := ''{x}''\<rparr>\<rparr>"]
  note local_get = params_put_frame [where E = env0 and w = w0 and r = "request ''GET'' ''j2'' []"
      and j = local_job]
  note local_put = params_put_frame [where E = env0 and w = w0 and r = "request ''PUT'' ''j2'' ''{x}''"
      and j = local_job]
  have rd: "ReadAll (request m i b) = Inr b" for m i b
    by (simp add: ReadAll_def request_def)
  have st: "fst (mem_Set reg0 j) = None" for j
    by (simp add: mem_Set_def reg0_facts)
  have a: "status_of (HandleJobParamsRequest env0 (request ''PUT'' ''j1'' ''{x}'') w0) = Some 204 \<and>
   calls (snd (HandleJobParamsRequest env0 (request ''PUT'' ''j1'' ''{x}'') w0)) =
     [Call_Get ''j1'',
      Call_Set (remote_job\<lparr>RemoteProperties := (RemoteProperties remote_job)\<lparr>Body := ''{x}''\<rparr>\<rparr>)]"
    using remote by (simp add: env0_sel sample_facts reg0_facts job_facts rd st)
  have b: "HandleJobParamsRequest env0 (request ''GET'' ''j2'' []) w0 =
     (Wrote (errorEncodeJSON ''Job is not a remote job'' 403),
      \<lparr>cache = reg0, calls = [Call_Get ''j2'']\<rparr>)"
    using local_get by (simp add: env0_sel sample_facts reg0_facts job_facts)
  have c: "HandleJobParamsRequest env0 (request ''PUT'' ''j2'' ''{x}'') w0 =
     (Wrote (errorEncodeJSON ''Job is not a remote job'' 403),
      \<lparr>cache = reg0, calls = [Call_Get ''j2'']\<rparr>)"
    using local_put by (simp add: env0_sel sample_facts reg0_facts job_facts)
  from a b c show ?thesis by simp
qed

text \<open>
  C7 as stated fails: the job \<^verbatim>\<open>j1\<close> exists and is remote, the store is down, and
  the PUT is answered 500, not 204.
\<close>

theorem params_put_store_down:
  "cache_Get env0 (cache w_down) ''j1'' = (Some remote_job, None) \<and>
   JobType remote_job = RemoteJob \<and>
   status_of (HandleJobParamsRequest env0 (request ''PUT'' ''j1'' ''{x}'') w_down) = Some 500"
proof -
  have g: "cache_Get env0 (cache w_down) (Vars (request ''PUT'' ''j1'' ''{x}'') ''id'') =
      (Some remote_job, None)"
    "JobType remote_job = RemoteJob" "r_Method (request ''PUT'' ''j1'' ''{x}'') = ''PUT''"
    "ReadAll (request ''PUT'' ''j1'' ''{x}'') = Inr ''{x}''"
    by (simp_all add: env0_sel sample_facts reg0_facts job_facts) (simp add: ReadAll_def request_def)
  have d: "mem_Set (reg0\<lparr>reg_down := True\<rparr>) j = (Some ''store failure'', reg0\<lparr>reg_down := True\<rparr>)" for j
    by (simp add: mem_Set_def)
  show ?thesis
    by (simp add: HandleJobParamsRequest_PUT [OF g] env0_sel sample_facts reg0_facts job_facts d
        status_of_def WriteHeader_def)
qed

subsection \<open>The local-jobs policy\<close>

text \<open>
  C8 (as amended). With the disable-local-jobs option set, a POST to job/ whose body
  describes a local job is answered 403 and the state is the one before the request;
  a PUT to job/{id}/ with such a body, for a job the registry returns, is answered 403
  after the lookup alone, and the registry is untouched; a PUT to an id whose lookup
  returns an error or no job is answered 404, whatever its body. For a body that
  describes a job of another type, both handlers do the same with the option set and
  unset.
\<close>

theorem local_jobs_disabled:
  "(unmarshalNewJob E r = Inr parsed \<and> JobType parsed = LocalJob \<longrightarrow>
      HandleAddJob E defaultOwner True r w =
        (Wrote (errorEncodeJSON ''local jobs are disabled'' 403), w) \<and>
      (r_Method r = ''PUT'' \<and> cache_Get E (cache w) (Vars r ''id'') = (Some j, None) \<longrightarrow>
         HandleJobRequest E True r w =
           (Wrote (errorEncodeJSON ''local jobs are disabled'' 403),
            \<lparr>cache = cache w, calls = calls w @ [Call_Get (Vars r ''id'')]\<rparr>))) \<and>
   (snd (cache_Get E (cache w) (Vars r ''id'')) \<noteq> None \<or>
    fst (cache_Get E (cache w) (Vars r ''id'')) = None \<longrightarrow>
      HandleJobRequest E True r w =
        (Wrote (WriteHeader 404), \<lparr>cache = cache w, calls = calls w @ [Call_Get (Vars r ''id'')]\<rparr>)) \<and>
   (unmarshalNewJob E r = Inr parsed \<and> JobType parsed \<noteq> LocalJob \<longrightarrow>
      HandleAddJob E defaultOwner True r w = HandleAddJob E defaultOwner False r w \<and>
      HandleJobRequest E True r w = HandleJobRequest E False r w)"
proof (intro conjI impI)
  assume "snd (cache_Get E (cache w) (Vars r ''id'')) \<noteq> None \<or>
    fst (cache_Get E (cache w) (Vars r ''id'')) = None"
  then show "HandleJobRequest E True r w =
        (Wrote (WriteHeader 404), \<lparr>cache = cache w, calls = calls w @ [Call_Get (Vars r ''id'')]\<rparr>)"
    by (simp add: job_lookup_fails logged_def)
next
  assume a: "unmarshalNewJob E r = Inr parsed \<and> JobType parsed = LocalJob"
  then show "HandleAddJob E defaultOwner True r w =
        (Wrote (errorEncodeJSON ''local jobs are disabled'' 403), w)"
    by (simp add: HandleAddJob_def)
  assume "r_Method r = ''PUT'' \<and> cache_Get E (cache w) (Vars r ''id'') = (Some j, None)"
  with a show "HandleJobRequest E True r w =
           (Wrote (errorEncodeJSON ''local jobs are disabled'' 403),
            \<lparr>cache = cache w, calls = calls w @ [Call_Get (Vars r ''id'')]\<rparr>)"
    by (simp add: HandleJobRequest_PUT logged_def)
next
  assume a: "unmarshalNewJob E r = Inr parsed \<and> JobType parsed \<noteq> LocalJob"
  then show "HandleAddJob E defaultOwner True r w = HandleAddJob E defaultOwner False r w"
    by (simp add: HandleAddJob_def)
  from a show "HandleJobRequest E True r w = HandleJobRequest E False r w"
    by (simp add: HandleJobRequest_def split: prod.splits option.splits)
qed

text \<open>
  The theorem at a POST and a PUT with the body of a local job, with the body of a
  remote job, and at a PUT to an id the registry does not know.
\<close>

theorem local_jobs_disabled_witness:
  "HandleAddJob env0 [] True (request ''POST'' [] ''local'') w0 =
     (Wrote (errorEncodeJSON ''local jobs are disabled'' 403), w0) \<and>
   HandleJobRequest env0 True (request ''PUT'' ''j1'' ''local'') w0 =
     (Wrote (errorEncodeJSON ''local jobs are disabled'' 403),
      \<lparr>cache = reg0, calls = [Call_Get ''j1'']\<rparr>) \<and>
   HandleAddJob env0 [] True (request ''POST'' [] ''remote'') w0 =
     HandleAddJob env0 [] False (request ''POST'' [] ''remote'') w0 \<and>
   HandleJobRequest env0 True (request ''PUT'' ''j1'' ''remote'') w0 =
     HandleJobRequest env0 False (request ''PUT'' ''j1'' ''remote'') w0 \<and>
   HandleJobRequest env0 True (request ''PUT'' ''nope'' ''remote'') w0 =
     (Wrote (WriteHeader 404), \<lparr>cache = reg0, calls = [Call_Get ''nope'']\<rparr>)"
proof -
  note unknown = local_jobs_disabled [where E = env0 and w = w0
      and r = "request ''PUT'' ''nope'' ''remote''"]
  have e: "HandleJobRequest env0 True (request ''PUT'' ''nope'' ''remote'') w0 =
     (Wrote (WriteHeader 404), \<lparr>cache = reg0, calls = [Call_Get ''nope'']\<rparr>)"
    using unknown by (simp add: env0_sel sample_facts reg0_facts)
  note post = local_jobs_disabled [where E = env0 and w = w0 and r = "request ''POST'' [] ''local''"
      and parsed = "local_job\<lparr>Id := ''other''\<rparr>" and defaultOwner = "[]"]
  note put = local_jobs_disabled [where E = env0 and w = w0 and r = "request ''PUT'' ''j1'' ''local''"
      and parsed = "local_job\<lparr>Id := ''other''\<rparr>" and j = remote_job]
  note other_post = local_jobs_disabled [where E = env0 and w = w0
      and r = "request ''POST'' [] ''remote''" and parsed = "remote_job\<lparr>Id := []\<rparr>"
      and defaultOwner = "[]"]
  note other_put = local_jobs_disabled [where E = env0 and w = w0
      and r = "request ''PUT'' ''j1'' ''remote''" and parsed = "remote_job\<lparr>Id := []\<rparr>"]
  have a: "HandleAddJob env0 [] True (request ''POST'' [] ''local'') w0 =
     (Wrote (errorEncodeJSON ''local jobs are disabled'' 403), w0)"
    using post by (simp add: job_bodies job_facts)
  have b: "HandleJobRequest env0 True (request ''PUT'' ''j1'' ''local'') w0 =
     (Wrote (errorEncodeJSON ''local jobs are disabled'' 403),
      \<lparr>cache = reg0, calls = [Call_Get ''j1'']\<rparr>)"
    using put by (simp add: job_bodies job_facts env0_sel sample_facts reg0_facts)
  have c: "HandleAddJob env0 [] True (request ''POST'' [] ''remote'') w0 =
     HandleAddJob env0 [] False (request ''POST'' [] ''remote'') w0"
    using other_post by (simp add: job_bodies job_facts)
  have d: "HandleJobRequest env0 True (request ''PUT'' ''j1'' ''remote'') w0 =
     HandleJobRequest env0 False (request ''PUT'' ''j1'' ''remote'') w0"
    using other_put by (simp add: job_bodies job_facts)
  from a b c d e show ?thesis by simp
qed

text \<open>
  C8 as stated fails: with the option set, a PUT whose body describes a local job, to
  an id the registry does not know, is answered 404, not 403.
\<close>

theorem local_put_unknown_id:
  "unmarshalNewJob env0 (request ''PUT'' ''nope'' ''local'') = Inr (local_job\<lparr>Id := ''other''\<rparr>) \<and>
   JobType (local_job\<lparr>Id := ''other''\<rparr>) = LocalJob \<and>
   status_of (HandleJobRequest env0 True (request ''PUT'' ''nope'' ''local'') w0) = Some 404"
  by (simp add: job_bodies job_facts job_lookup_fails env0_sel sample_facts reg0_facts status_of_def
      WriteHeader_def)

subsection \<open>The default owner\<close>

lemma HandleAddJob_created:
  assumes "unmarshalNewJob E r = Inr parsed"
    and "status_of (HandleAddJob E defaultOwner disableLocalJobs r w) = Some 201"
    and "newJob = (if defaultOwner \<noteq> '''' \<and> Owner parsed = ''''
                   then parsed\<lparr>Owner := defaultOwner\<rparr> else parsed)"
  shows "(\<exists>pre. calls (snd (HandleAddJob E defaultOwner disableLocalJobs r w)) =
            pre @ [Call_Init newJob]) \<and>
         fst (job_Init E newJob (cache w)) = None \<and>
         fst (HandleAddJob E defaultOwner disableLocalJobs r w) =
           Wrote (encodeJSON 201 (AddJobResponse (Id (fst (snd (job_Init E newJob (cache w))))))) \<and>
         cache (snd (HandleAddJob E defaultOwner disableLocalJobs r w)) =
           snd (snd (job_Init E newJob (cache w)))"
proof -
  let ?v = "if JobType newJob = RemoteJob then validateJob E r newJob w else (Inr True, w)"
  have c: "cache (snd ?v) = cache w" by (simp add: validateJob_cache)
  have h: "HandleAddJob E defaultOwner disableLocalJobs r w =
     (if disableLocalJobs \<and> JobType parsed = LocalJob
      then (Wrote (errorEncodeJSON ''local jobs are disabled'' 403), w)
      else if fst ?v \<noteq> Inr True then (Wrote (WriteHeader 403), snd ?v)
      else (case Init E newJob (snd ?v) of
              (Some e, newJob', w2) \<Rightarrow>
                (Wrote (errorEncodeJSON
                   (''Error occurred when initializing the job: '' @ fmt_Job E newJob') 400), w2)
            | (None, newJob', w2) \<Rightarrow>
                (Wrote (encodeJSON 201 (AddJobResponse (Id newJob'))), w2)))"
    using assms(1,3)
    by (cases "validateJob E r newJob w")
       (auto simp: HandleAddJob_def Let_def split: sum.splits prod.splits option.splits)
  obtain e j2 c2 where i: "job_Init E newJob (cache w) = (e, j2, c2)"
    by (cases "job_Init E newJob (cache w)") auto
  from assms(2) have ok: "\<not> (disableLocalJobs \<and> JobType parsed = LocalJob)" "fst ?v = Inr True"
    "e = None"
    using i c
    by (auto simp: h status_of_def Init_def errorEncodeJSON_def WriteHeader_def encodeJSON_def
        split: if_splits option.splits prod.splits)
  then have r: "HandleAddJob E defaultOwner disableLocalJobs r w =
      (Wrote (encodeJSON 201 (AddJobResponse (Id j2))),
       logged (Call_Init newJob) ((snd ?v)\<lparr>cache := c2\<rparr>))"
    using i c by (auto simp: h Init_def)
  show ?thesis
    using i ok(3) by (simp add: r logged_def)
qed

text \<open>
  C9. When a job is created (the answer is 201), the job handed to \<open>Init\<close>, the last
  call of the request, is the submitted job with the default owner as its owner if the
  default owner is not empty and the submitted owner is; it is the submitted job,
  unchanged, if the submitted owner is not empty. The id in the answer and the
  registry are those \<open>Init\<close> makes of that job.
\<close>

theorem default_owner:
  assumes "unmarshalNewJob E r = Inr parsed"
    and "status_of (HandleAddJob E defaultOwner disableLocalJobs r w) = Some 201"
  shows "(defaultOwner \<noteq> '''' \<and> Owner parsed = '''' \<longrightarrow>
            (\<exists>pre. calls (snd (HandleAddJob E defaultOwner disableLocalJobs r w)) =
               pre @ [Call_Init (parsed\<lparr>Owner := defaultOwner\<rparr>)]) \<and>
            Owner (parsed\<lparr>Owner := defaultOwner\<rparr>) = defaultOwner \<and>
            fst (HandleAddJob E defaultOwner disableLocalJobs r w) =
              Wrote (encodeJSON 201 (AddJobResponse
                (Id (fst (snd (job_Init E (parsed\<lparr>Owner := defaultOwner\<rparr>) (cache w))))))) \<and>
            cache (snd (HandleAddJob E defaultOwner disableLocalJobs r w)) =
              snd (snd (job_Init E (parsed\<lparr>Owner := defaultOwner\<rparr>) (cache w)))) \<and>
         (Owner parsed \<noteq> '''' \<longrightarrow>
            (\<exists>pre. calls (snd (HandleAddJob E defaultOwner disableLocalJobs r w)) =
               pre @ [Call_Init parsed]) \<and>
            fst (HandleAddJob E defaultOwner disableLocalJobs r w) =
              Wrote (encodeJSON 201 (AddJobResponse
                (Id (fst (snd (job_Init E parsed (cache w))))))) \<and>
            cache (snd (HandleAddJob E defaultOwner disableLocalJobs r w)) =
              snd (snd (job_Init E parsed (cache w))))"
  using HandleAddJob_created [OF assms, of "parsed\<lparr>Owner := defaultOwner\<rparr>"]
    HandleAddJob_created [OF assms, of parsed]
  by auto

lemma add_remote_env0:
  "HandleAddJob env0 ''ops'' False (request ''POST'' [] ''remote'') w0 =
     (Wrote (encodeJSON 201 (AddJobResponse ''nj1j2'')),
      \<lparr>cache = reg0\<lparr>reg_jobs := [(''j1'', remote_job), (''j2'', local_job),
                        (''nj1j2'', remote_job\<lparr>Id := ''nj1j2'', Owner := ''ops''\<rparr>)]\<rparr>,
       calls = [Call_Do (validate_request env0 (request ''POST'' [] ''remote'')
                  (remote_job\<lparr>Id := [], Owner := ''ops''\<rparr>) ''http://peer/hook'' ''{}''),
                Call_Init (remote_job\<lparr>Id := [], Owner := ''ops''\<rparr>)]\<rparr>)"
proof -
  have t: "JobType (remote_job\<lparr>Id := []\<rparr>) = RemoteJob"
    by (simp add: remote_job_def)
  have n: "remote_job\<lparr>Id := [], Owner := ''ops''\<rparr> =
      (if ''ops'' \<noteq> [] \<and> Owner (remote_job\<lparr>Id := []\<rparr>) = []
       then (remote_job\<lparr>Id := []\<rparr>)\<lparr>Owner := ''ops''\<rparr> else remote_job\<lparr>Id := []\<rparr>)"
    by (simp add: remote_job_def)
  have u: "Url (RemoteProperties (remote_job\<lparr>Id := [], Owner := ''ops''\<rparr>)) = ''http://peer/hook''"
    "Body (RemoteProperties remote_job) = ''{}''"
    by (simp_all add: remote_job_def)
  have i: "mem_Init (remote_job\<lparr>Id := [], Owner := ''ops''\<rparr>) reg0 =
     (None, remote_job\<lparr>Id := ''nj1j2'', Owner := ''ops''\<rparr>,
      reg0\<lparr>reg_jobs := [(''j1'', remote_job), (''j2'', local_job),
                        (''nj1j2'', remote_job\<lparr>Id := ''nj1j2'', Owner := ''ops''\<rparr>)]\<rparr>)"
    by (simp add: mem_Init_def reg0_def remote_job_def Let_def)
  show ?thesis
    by (simp add: HandleAddJob_remote [OF job_bodies(1) t n] validateJob_env0 [OF u(1)] u(2)
        Init_def env0_sel i logged_def sample_facts)
qed

lemma add_local_env0:
  "HandleAddJob env0 ''root'' False (request ''POST'' [] ''local'') w0 =
     (Wrote (encodeJSON 201 (AddJobResponse ''other'')),
      \<lparr>cache = reg0\<lparr>reg_jobs := [(''j1'', remote_job), (''j2'', local_job),
                        (''other'', local_job\<lparr>Id := ''other''\<rparr>)]\<rparr>,
       calls = [Call_Init (local_job\<lparr>Id := ''other''\<rparr>)]\<rparr>)"
proof -
  have i: "mem_Init (local_job\<lparr>Id := ''other''\<rparr>) reg0 =
     (None, local_job\<lparr>Id := ''other''\<rparr>,
      reg0\<lparr>reg_jobs := [(''j1'', remote_job), (''j2'', local_job),
                        (''other'', local_job\<lparr>Id := ''other''\<rparr>)]\<rparr>)"
    by (simp add: mem_Init_def reg0_def local_job_def Let_def)
  show ?thesis
    by (simp add: HandleAddJob_def job_bodies job_facts Init_def env0_sel i logged_def sample_facts
        Let_def)
qed

text \<open>
  The theorem at a remote job without an owner, created under the default owner
  \<^verbatim>\<open>ops\<close>, and at a local job that names its owner.
\<close>

theorem default_owner_witness:
  "last (calls (snd (HandleAddJob env0 ''ops'' False (request ''POST'' [] ''remote'') w0))) =
     Call_Init (remote_job\<lparr>Id := [], Owner := ''ops''\<rparr>) \<and>
   Owner (remote_job\<lparr>Id := [], Owner := ''ops''\<rparr>) = ''ops'' \<and>
   last (calls (snd (HandleAddJob env0 ''root'' False (request ''POST'' [] ''local'') w0))) =
     Call_Init (local_job\<lparr>Id := ''other''\<rparr>) \<and>
   Owner (local_job\<lparr>Id := ''other''\<rparr>) = ''ops''"
proof -
  have s1: "status_of (HandleAddJob env0 ''ops'' False (request ''POST'' [] ''remote'') w0) = Some 201"
    by (simp add: add_remote_env0 status_of_def encodeJSON_def)
  have s2: "status_of (HandleAddJob env0 ''root'' False (request ''POST'' [] ''local'') w0) = Some 201"
    by (simp add: add_local_env0 status_of_def encodeJSON_def)
  from default_owner [OF job_bodies(1) s1]
  have a: "last (calls (snd (HandleAddJob env0 ''ops'' False (request ''POST'' [] ''remote'') w0))) =
     Call_Init (remote_job\<lparr>Id := [], Owner := ''ops''\<rparr>)"
    by (auto simp: job_facts)
  from default_owner [OF job_bodies(2) s2]
  have b: "last (calls (snd (HandleAddJob env0 ''root'' False (request ''POST'' [] ''local'') w0))) =
     Call_Init (local_job\<lparr>Id := ''other''\<rparr>)"
    by (auto simp: job_facts)
  from a b show ?thesis by (simp add: job_facts)
qed

end
